theory Spec2Isabelle
  imports Complex_Main "HOL-Library.Product_Lexorder" "HOL-Library.List_Lexorder"
    "HOL-Library.AList"
begin

section \<open>Python values shared by the coordinators\<close>

text \<open>
  Exceptions are values. Python integers are \<open>int\<close>. The double precision numbers of
  numpy are modelled by \<open>real\<close>: sums, means and quotients are the exact ones, so
  rounding is outside this development.
\<close>

datatype py_error =
    AssertionError
  | ValueError string
  | IndexError
  | ZeroDivisionError
  | NotImplementedError
  | UnboundLocalError
  | RuntimeError_z real
  | RuntimeError_d real real

text \<open>
  A numpy array is its shape and its elements in row-major order; a well-formed array
  holds as many elements as the product of its shape.
\<close>

record ndarray =
  shape :: "nat list"
  data :: "real list"

definition wf_array :: "ndarray \<Rightarrow> bool" where
  "wf_array a = (length (data a) = prod_list (shape a))"

text \<open>\<open>a * a\<close> on arrays of one shape: the element-wise product.\<close>

definition np_mul :: "real list \<Rightarrow> real list \<Rightarrow> real list" where
  "np_mul xs ys = map2 (*) xs ys"

text \<open>
  \<open>np.mean(a, axis=1)\<close> for \<open>a\<close> of shape \<open>(n0, n1, R)\<close> (the trailing axes flattened
  into \<open>R\<close>): the result has shape \<open>(n0, R)\<close>. With \<open>n1 = 0\<close> numpy yields nan where
  HOL's quotient is 0, so the theorems below ask for \<open>0 < n1\<close>.
\<close>

definition np_mean_axis1 :: "nat \<Rightarrow> nat \<Rightarrow> nat \<Rightarrow> real list \<Rightarrow> real list" where
  "np_mean_axis1 n0 n1 R xs =
     concat (map (\<lambda>i. map (\<lambda>r. sum_list (map (\<lambda>c. xs ! ((i * n1 + c) * R + r)) [0..<n1])
                                   / real n1) [0..<R]) [0..<n0])"

text \<open>\<open>np.sum(a, axis=-1)\<close> for \<open>a\<close> of shape \<open>(n, m)\<close>, leading axes flattened into \<open>n\<close>.\<close>

definition np_sum_last :: "nat \<Rightarrow> nat \<Rightarrow> real list \<Rightarrow> real list" where
  "np_sum_last n m xs = map (\<lambda>i. sum_list (map (\<lambda>j. xs ! (i * m + j)) [0..<m])) [0..<n]"

text \<open>\<open>alpha_k += (alpha_k == 0)\<close>: the boolean array is added as 0 and 1.\<close>

definition add_is_zero :: "real list \<Rightarrow> real list" where
  "add_is_zero xs = map (\<lambda>a. a + (if a = 0 then 1 else 0)) xs"

section \<open>The class DICOD (dicod/dicod.py)\<close>

text \<open>
  The optimisation problem \<open>pb\<close>: dictionary \<open>pb.D\<close>, signal \<open>pb.x\<close>, the dictionary
  correlation \<open>pb.DD\<close> (or None) and the regularisation \<open>pb.lmbd\<close>.
\<close>

record problem =
  pb_D :: ndarray
  pb_x :: ndarray
  pb_DD :: "real list option"
  pb_lmbd :: real

text \<open>
  Attributes that both coordinator classes store in \<open>__init__\<close>. \<open>self_tol\<close> is set by
  the base class from the keyword arguments; the base classes are not part of the
  sources, so what they store is taken as given.
\<close>

record coordinator =
  self_debug :: int
  self_n_jobs :: int
  self_hostfile :: "string option"
  self_logging :: int
  self_use_seg :: int
  self_positive :: int
  self_algorithm :: int
  self_patience :: int
  self_tol :: real

record DICOD = coordinator +
  self_max_iter :: int
  self_timeout :: real

text \<open>\<open>DICOD.__init__\<close>; the name of the solver, kept by the base class, is left out.\<close>

definition DICOD_init ::
  "int \<Rightarrow> int \<Rightarrow> string option \<Rightarrow> bool \<Rightarrow> int \<Rightarrow> bool \<Rightarrow> int \<Rightarrow> int
     \<Rightarrow> real \<Rightarrow> int \<Rightarrow> real \<Rightarrow> DICOD" where
  "DICOD_init n_jobs use_seg hostfile logging debug positive algorithm patience
              tol max_iter timeout =
     \<lparr> self_debug = debug,
       self_n_jobs = n_jobs,
       self_hostfile = hostfile,
       self_logging = (if logging then 1 else 0),
       self_use_seg = use_seg,
       self_positive = (if positive then 1 else 0),
       self_algorithm = algorithm,
       self_patience = 1000,
       self_tol = tol,
       self_max_iter = max_iter,
       self_timeout = timeout \<rparr>"

text \<open>
  What \<open>DICOD.send_task\<close> has broadcast and stored when it reaches the scatter loop
  (lines 88 to 115): the three constant arrays, the parameter array \<open>N\<close>, and the code
  length \<open>L\<close> with the chunk length \<open>L_proc\<close>.
\<close>

record sent =
  bc_alpha_k :: "real list"
  bc_DD :: "real list"
  bc_D :: "real list"
  bc_N :: "real list"

record sent_1d = sent +
  self_L :: int
  self_L_proc :: int

definition alpha_k_1d :: "nat \<Rightarrow> nat \<Rightarrow> nat \<Rightarrow> real list \<Rightarrow> real list" where
  "alpha_k_1d K d S xs = add_is_zero (np_sum_last K S (np_mean_axis1 K d S (np_mul xs xs)))"

definition send_task :: "DICOD \<Rightarrow> problem \<Rightarrow> py_error + sent_1d" where
  "send_task self pb =
     (case shape (pb_D pb) of
        [K, d, S] \<Rightarrow>
          (case shape (pb_x pb) of
             _ # T # _ \<Rightarrow>
               (let L = int T - int S + 1 in
                case pb_DD pb of
                  None \<Rightarrow> Inl AssertionError
                | Some DD \<Rightarrow>
                    (let alpha_k = alpha_k_1d K d S (data (pb_D pb)) in
                     if self_n_jobs self = 0 then Inl ZeroDivisionError
                     else
                       (let max_iter = max 1 (self_max_iter self div self_n_jobs self);
                            N = [real d, real K, real S, real T,
                                 pb_lmbd pb, self_tol self, self_timeout self,
                                 real_of_int max_iter, real_of_int (self_debug self),
                                 real_of_int (self_logging self),
                                 real_of_int (self_use_seg self),
                                 real_of_int (self_positive self),
                                 real_of_int (self_algorithm self),
                                 real_of_int (self_patience self)];
                            L_proc = L div self_n_jobs self + 1
                        in Inr \<lparr> bc_alpha_k = alpha_k, bc_DD = DD, bc_D = data (pb_D pb),
                                 bc_N = N, self_L = L, self_L_proc = L_proc \<rparr>)))
           | _ \<Rightarrow> Inl IndexError)
      | _ \<Rightarrow> Inl (ValueError ''unpack''))"

section \<open>The class DICOD2D (cdl/dicod2d.py)\<close>

record DICOD2D = coordinator +
  self_i_max :: real
  self_t_max :: real
  self_w_world :: int
  self_h_world :: int

text \<open>
  \<open>DICOD2D.__init__\<close>: the verbosity is lowered by one, and \<open>n_jobs // w_world\<close> raises
  for \<open>w_world = 0\<close>.
\<close>

definition DICOD2D_init ::
  "int \<Rightarrow> int \<Rightarrow> int \<Rightarrow> string option \<Rightarrow> bool \<Rightarrow> int \<Rightarrow> bool \<Rightarrow> int \<Rightarrow> int
     \<Rightarrow> real \<Rightarrow> real \<Rightarrow> real \<Rightarrow> py_error + DICOD2D" where
  "DICOD2D_init n_jobs w_world use_seg hostfile logging debug positive algorithm patience
                tol i_max t_max =
     (let debug = max (debug - 1) 0 in
      if w_world = 0 then Inl ZeroDivisionError
      else Inr \<lparr> self_debug = debug,
                 self_n_jobs = n_jobs,
                 self_hostfile = hostfile,
                 self_logging = (if logging then 1 else 0),
                 self_use_seg = use_seg,
                 self_positive = (if positive then 1 else 0),
                 self_algorithm = algorithm,
                 self_patience = 1000,
                 self_tol = tol,
                 self_i_max = i_max,
                 self_t_max = t_max,
                 self_w_world = w_world,
                 self_h_world = n_jobs div w_world \<rparr>)"

record sent_2d = sent +
  self_h_cod :: int
  self_h_proc :: int
  self_w_cod :: int
  self_w_proc :: int

definition alpha_k_2d :: "nat \<Rightarrow> nat \<Rightarrow> nat \<Rightarrow> nat \<Rightarrow> real list \<Rightarrow> real list" where
  "alpha_k_2d K d h w xs =
     add_is_zero (np_sum_last K h (np_sum_last (K * h) w
                    (np_mean_axis1 K d (h * w) (np_mul xs xs))))"

text \<open>
  \<open>DICOD2D.send_task\<close> up to the scatter loop (lines 100 to 136). \<open>pb.compute_DD\<close>
  belongs to the problem class, which is not part of the sources: \<open>compute_DD\<close> stands
  for the array it leaves in \<open>pb.DD\<close>.
\<close>

definition send_task_2d ::
  "(problem \<Rightarrow> real list option \<Rightarrow> real list) \<Rightarrow> DICOD2D \<Rightarrow> problem \<Rightarrow> real list option
     \<Rightarrow> py_error + sent_2d" where
  "send_task_2d compute_DD self pb DD =
     (case shape (pb_D pb) of
        [K, d, h_dic, w_dic] \<Rightarrow>
          (case shape (pb_x pb) of
             [_, h_sig, w_sig] \<Rightarrow>
               (let h_cod = int h_sig - int h_dic + 1;
                    w_cod = int w_sig - int w_dic + 1;
                    alpha_k = alpha_k_2d K d h_dic w_dic (data (pb_D pb));
                    w_world = self_w_world self
                in if w_world = 0 then Inl ZeroDivisionError
                   else
                     (let h_world = self_n_jobs self div w_world in
                      if self_n_jobs self mod self_w_world self \<noteq> 0 then Inl AssertionError
                      else if self_n_jobs self = 0 then Inl ZeroDivisionError
                      else
                        (let N = [real d, real K, real h_dic, real w_dic,
                                  real h_sig, real w_sig, real_of_int w_world,
                                  pb_lmbd pb, self_tol self, self_t_max self,
                                  self_i_max self / real_of_int (self_n_jobs self),
                                  real_of_int (self_debug self),
                                  real_of_int (self_logging self),
                                  real_of_int (self_use_seg self),
                                  real_of_int (self_positive self),
                                  real_of_int (self_algorithm self),
                                  real_of_int (self_patience self)]
                         in if h_world = 0 then Inl ZeroDivisionError
                            else Inr \<lparr> bc_alpha_k = alpha_k, bc_DD = compute_DD pb DD,
                                       bc_D = data (pb_D pb), bc_N = N,
                                       self_h_cod = h_cod, self_h_proc = h_cod div h_world,
                                       self_w_cod = w_cod,
                                       self_w_proc = w_cod div w_world + 1 \<rparr>)))
           | _ \<Rightarrow> Inl (ValueError ''unpack''))
      | _ \<Rightarrow> Inl (ValueError ''unpack''))"

section \<open>The function dicod (dicod/_dicod.py)\<close>

subsection \<open>The worker grid\<close>

text \<open>
  One round of the loop of \<open>_find_grid_size\<close>, on the state
  \<open>(w_world, h_world, w_ratio)\<close>. The ratios are Python floats in the source.
\<close>

definition grid_step :: "int \<Rightarrow> int \<Rightarrow> int \<Rightarrow> int \<times> int \<times> real \<Rightarrow> int \<Rightarrow> int \<times> int \<times> real" where
  "grid_step n_jobs height width st i =
     (case st of (w_world, h_world, w_ratio) \<Rightarrow>
        if n_jobs mod i \<noteq> 0 then st
        else
          (let j = n_jobs div i;
               ratio = real_of_int (width * j) / real_of_int (height * i)
           in if abs (ratio - 1) < abs (w_ratio - 1) then (i, j, ratio) else st))"

definition find_grid_size :: "int \<Rightarrow> int list \<Rightarrow> py_error + int list" where
  "find_grid_size n_jobs sig_shape =
     (case sig_shape of
        [_] \<Rightarrow> Inr [n_jobs]
      | [height, width] \<Rightarrow>
          if height = 0 then Inl ZeroDivisionError
          else
            (case foldl (grid_step n_jobs height width)
                        (1, n_jobs, real_of_int (width * n_jobs) / real_of_int height)
                        [2..n_jobs] of
               (w_world, h_world, _) \<Rightarrow> Inr [w_world, h_world])
      | _ \<Rightarrow> Inl NotImplementedError)"


subsection \<open>Arguments, parameters and collaborators\<close>

datatype pyval =
    PNone
  | PBool bool
  | PInt int
  | PFloat real
  | PStr string
  | PTuple "int list"

text \<open>The keyword arguments of \<open>dicod\<close>; \<open>w_world = None\<close> stands for \<open>'auto'\<close>.\<close>

record dicod_args =
  X_i :: ndarray
  D :: ndarray
  reg :: real
  z0 :: "ndarray option"
  n_seg :: pyval
  strategy :: string
  use_soft_lock :: bool
  n_jobs :: int
  w_world :: "int option"
  hostfile :: "string option"
  tol :: real
  max_iter :: int
  timeout :: "real option"
  z_positive :: bool
  return_ztz :: bool
  freeze_support :: bool
  timing :: bool
  random_state :: "int option"
  verbose :: int
  debug :: bool

text \<open>
  The class \<open>Segmentation\<close> of \<open>utils/segmentation.py\<close> is not part of the sources.
  An instance is the record of the methods that \<open>dicod\<close> calls on it, and the
  constructor is a parameter of the model.
\<close>

record segmentation =
  effective_n_seg :: nat
  get_seg_shape :: "nat \<Rightarrow> bool \<Rightarrow> int list"
  get_seg_slice :: "nat \<Rightarrow> bool \<Rightarrow> (int \<times> int) list"
  get_seg_bounds :: "nat \<Rightarrow> (int \<times> int) list"

text \<open>One logged update: \<open>(t_update, ii, rank, k0, pt0, dz)\<close>.\<close>

type_synonym log_entry = "real \<times> int \<times> int \<times> int \<times> int list \<times> real"

text \<open>
  What lies outside \<open>_dicod.py\<close>: the local solver (with the type \<open>'r\<close> of whatever it
  returns), the segmentation, the cost function, two debug flags, and what the workers
  answer: their tiles of z, their contributions to ztz and ztX, their logs, and
  whether the two debugging assertions on received data hold.
\<close>

record 'r collaborators =
  coordinate_descent :: "ndarray \<Rightarrow> ndarray \<Rightarrow> real \<Rightarrow> ndarray option \<Rightarrow> pyval \<Rightarrow> string \<Rightarrow> real
     \<Rightarrow> int \<Rightarrow> real option \<Rightarrow> bool \<Rightarrow> bool \<Rightarrow> bool \<Rightarrow> bool \<Rightarrow> int option \<Rightarrow> int \<Rightarrow> 'r"
  Segmentation :: "int list \<Rightarrow> int list \<Rightarrow> int list \<Rightarrow> segmentation"
  cost :: "ndarray \<Rightarrow> ndarray \<Rightarrow> ndarray \<Rightarrow> real \<Rightarrow> real"
  CHECK_WARM_BETA :: bool
  GET_OVERLAP_Z_HAT :: bool
  worker_z :: "nat \<Rightarrow> real list"
  worker_ztz :: "nat \<Rightarrow> real list"
  worker_ztX :: "nat \<Rightarrow> real list"
  worker_log :: "nat \<Rightarrow> log_entry list"
  debug_plot_ok :: bool
  warm_beta_probe :: "nat \<Rightarrow> bool"
  warm_beta_ok :: bool

text \<open>
  What the coordinator does on the transport, in order. The transport itself and the
  slicing of the arrays that are sent and received belong to mpi4py and numpy; a failure
  inside them is outside the model.
\<close>

datatype event =
    Spawn_workers int "string option"
  | Command string
  | Bcast_params "(string \<times> pyval) list"
  | Bcast_array ndarray
  | Send_z0 nat "(int \<times> int) list"
  | Send_X nat "(int \<times> int) list"
  | Recv_X_debug nat
  | Recv_beta nat
  | Barrier
  | Recv_z nat
  | Reduce_sum
  | Recv_log nat
  | Gather_stats

subsection \<open>Setup: shapes, topology and the size check\<close>

text \<open>The dictionary \<open>params\<close>, in insertion order (lines 96 to 102).\<close>

definition opt_val :: "('a \<Rightarrow> pyval) \<Rightarrow> 'a option \<Rightarrow> pyval" where
  "opt_val f x = (case x of None \<Rightarrow> PNone | Some v \<Rightarrow> f v)"

definition base_params :: "dicod_args \<Rightarrow> (string \<times> pyval) list" where
  "base_params a =
     [(''strategy'', PStr (strategy a)), (''tol'', PFloat (tol a)),
      (''max_iter'', PInt (max_iter a)), (''timeout'', opt_val PFloat (timeout a)),
      (''n_seg'', n_seg a), (''z_positive'', PBool (z_positive a)),
      (''verbose'', PInt (verbose a)), (''timing'', PBool (timing a)),
      (''debug'', PBool (debug a)), (''random_state'', opt_val PInt (random_state a)),
      (''reg'', PFloat (reg a)), (''return_ztz'', PBool (return_ztz a)),
      (''use_soft_lock'', PBool (use_soft_lock a)), (''has_z0'', PBool (z0 a \<noteq> None)),
      (''freeze_support'', PBool (freeze_support a))]"

definition valid_shape_of :: "nat list \<Rightarrow> nat list \<Rightarrow> int list" where
  "valid_shape_of sig_shape atom_shape =
     map2 (\<lambda>size_ax size_atom_ax. int size_ax - int size_atom_ax + 1) sig_shape atom_shape"

definition workers_topology :: "int \<Rightarrow> int option \<Rightarrow> nat list \<Rightarrow> py_error + int list" where
  "workers_topology nj ww sig_shape =
     (case ww of
        None \<Rightarrow> find_grid_size nj (map int sig_shape)
      | Some w \<Rightarrow>
          if w = 0 then Inl ZeroDivisionError
          else if nj mod w \<noteq> 0 then Inl AssertionError
          else Inr [w, nj div w])"

text \<open>
  Lines 103 to 122 of \<open>dicod\<close>, which are lines 43 to 63 of \<open>dicodil\<close>: the shapes are
  unpacked, the valid shape and the overlap computed, the grid chosen and the
  segmentation of the workers built.
\<close>

record worker_grid =
  atom_shape :: "nat list"
  valid_shape :: "int list"
  topology :: "int list"
  workers_segments :: segmentation

definition make_worker_grid ::
  "'r collaborators \<Rightarrow> ndarray \<Rightarrow> ndarray \<Rightarrow> int \<Rightarrow> int option \<Rightarrow> py_error + worker_grid" where
  "make_worker_grid env X Dm nj ww =
     (case shape X of
        [] \<Rightarrow> Inl (ValueError ''unpack'')
      | n_channels # sig_shape \<Rightarrow>
          (case shape Dm of
             n_atoms # n_channels' # ashape \<Rightarrow>
               if length (shape Dm) - 1 \<noteq> length (shape X) then Inl AssertionError
               else
                 (let vshape = valid_shape_of sig_shape ashape;
                      overlap = map (\<lambda>size_atom_ax. int size_atom_ax - 1) ashape
                  in case workers_topology nj ww sig_shape of
                       Inl e \<Rightarrow> Inl e
                     | Inr topo \<Rightarrow>
                         Inr \<lparr> atom_shape = ashape, valid_shape = vshape, topology = topo,
                               workers_segments = Segmentation env topo vshape overlap \<rparr>)
           | _ \<Rightarrow> Inl (ValueError ''unpack'')))"

text \<open>
  Lines 124 to 128 (\<open>dicodil\<close>: 65 to 69): the loop over the zipped shapes raises at the
  first axis where the inner tile of worker 0 is not larger than \<open>2 * size_atom_ax - 1\<close>.
\<close>

definition too_many_cores :: "nat list \<Rightarrow> int list \<Rightarrow> bool" where
  "too_many_cores ashape worker_valid_shape =
     list_ex (\<lambda>(size_atom_ax, size_valid_ax). 2 * int size_atom_ax - 1 \<ge> size_valid_ax)
             (zip ashape worker_valid_shape)"

definition check_worker_grid :: "worker_grid \<Rightarrow> py_error + unit" where
  "check_worker_grid g =
     (if too_many_cores (atom_shape g) (get_seg_shape (workers_segments g) 0 True)
      then Inl (ValueError ''Using too many cores.'') else Inr ())"

subsection \<open>Sending the task\<close>

definition is_true :: "(string \<times> pyval) list \<Rightarrow> string \<Rightarrow> bool" where
  "is_true ps key = (map_of ps key = Some (PBool True))"

text \<open>The messages of one round of the loop of \<open>_send_task\<close> (lines 219 to 236).\<close>

definition send_segment ::
  "segmentation \<Rightarrow> nat list \<Rightarrow> (string \<times> pyval) list \<Rightarrow> nat \<Rightarrow> event list" where
  "send_segment segs ashape ps i_seg =
     (if is_true ps ''has_z0'' then [Send_z0 i_seg (get_seg_slice segs i_seg False)] else [])
     @ [Send_X i_seg (map2 (\<lambda>(start, end) size_atom_ax. (start, end + int size_atom_ax - 1))
                           (get_seg_bounds segs i_seg) ashape)]
     @ (if is_true ps ''debug'' then [Recv_X_debug i_seg] else [])"

text \<open>
  \<open>_send_task\<close>. The assertion of the debug plot and the one on the warm start of beta
  compare data received from the workers; their outcomes are given by the collaborators,
  as is the set of workers that contain the probed point (\<open>warm_beta_probe\<close>).
\<close>

definition send_task_events ::
  "'r collaborators \<Rightarrow> ndarray \<Rightarrow> segmentation \<Rightarrow> (string \<times> pyval) list
     \<Rightarrow> event list \<times> (py_error + unit)" where
  "send_task_events env Dm segs ps =
     (let nseg = effective_n_seg segs;
          ashape = drop 2 (shape Dm);
          t1 = [Bcast_params ps, Bcast_array Dm]
               @ concat (map (send_segment segs ashape ps) [0..<nseg])
      in if is_true ps ''debug'' \<and> \<not> debug_plot_ok env then (t1, Inl AssertionError)
         else
           (let t2 = (if CHECK_WARM_BETA env
                      then map Recv_beta (filter (warm_beta_probe env) [0..<nseg]) else [])
            in if CHECK_WARM_BETA env \<and> \<not> warm_beta_ok env then (t1 @ t2, Inl AssertionError)
               else (t1 @ t2 @ [Barrier], Inr ())))"

subsection \<open>Receiving the result\<close>

text \<open>
  The stitched activation: its shape and, in the order of the assignments
  \<open>z_hat[worker_slice] = z_worker\<close>, the slice, the shape and the data of each tile.
\<close>

record stitched =
  z_shape :: "int list"
  z_tiles :: "((int \<times> int) list \<times> int list \<times> real list) list"

text \<open>
  \<open>comm.Reduce(None, [buf, MPI.DOUBLE], MPI.SUM, root=MPI.ROOT)\<close>: element \<open>j\<close> of the
  buffer becomes the sum over the workers of element \<open>j\<close> of what each one sends.
\<close>

definition reduce_sum :: "nat \<Rightarrow> nat \<Rightarrow> (nat \<Rightarrow> real list) \<Rightarrow> real list" where
  "reduce_sum n_workers count sendbuf =
     map (\<lambda>j. sum_list (map (\<lambda>i. sendbuf i ! j) [0..<n_workers])) [0..<count]"

text \<open>\<open>np.zeros(shape)\<close> and \<open>np.empty(shape)\<close> raise on a negative dimension.\<close>

definition np_shape :: "int list \<Rightarrow> py_error + nat list" where
  "np_shape dims =
     (if list_ex (\<lambda>n. n < 0) dims then Inl (ValueError ''negative dimensions are not allowed'')
      else Inr (map nat dims))"

record received =
  r_z_hat :: stitched
  r_ztz :: "ndarray option"
  r_ztX :: "ndarray option"
  r_log :: "log_entry list"

text \<open>\<open>_recv_result\<close>; \<open>n_workers\<close> is the size of the group behind \<open>comm\<close>.\<close>

definition recv_result ::
  "'r collaborators \<Rightarrow> nat \<Rightarrow> nat list \<Rightarrow> int list \<Rightarrow> segmentation \<Rightarrow> bool \<Rightarrow> bool
     \<Rightarrow> event list \<times> (py_error + received)" where
  "recv_result env n_workers D_shape vshape segs rztz tim =
     (case D_shape of
        n_atoms # n_channels # ashape \<Rightarrow>
          (let inner = (\<not> GET_OVERLAP_Z_HAT env);
               nseg = effective_n_seg segs
           in case np_shape (int n_atoms # vshape) of
                Inl e \<Rightarrow> ([], Inl e)
              | Inr _ \<Rightarrow>
                  (let t1 = map Recv_z [0..<nseg];
                       zh = \<lparr> z_shape = int n_atoms # vshape,
                              z_tiles = map (\<lambda>i_seg. (get_seg_slice segs i_seg inner,
                                                      int n_atoms # get_seg_shape segs i_seg inner,
                                                      worker_z env i_seg)) [0..<nseg] \<rparr>;
                       ztz_shape = map (\<lambda>size_atom_ax. 2 * int size_atom_ax - 1) ashape;
                       t3 = (if tim then map Recv_log [0..<nseg] else []);
                       lg = (if tim then concat (map (worker_log env) [0..<nseg]) else [])
                   in if rztz then
                        (case np_shape (int n_atoms # int n_atoms # ztz_shape) of
                           Inl e \<Rightarrow> (t1, Inl e)
                         | Inr zs \<Rightarrow>
                             (let ztz = \<lparr> shape = zs,
                                          data = reduce_sum n_workers (prod_list zs)
                                                            (worker_ztz env) \<rparr>;
                                  xs = n_atoms # n_channels # ashape;
                                  ztX = \<lparr> shape = xs,
                                          data = reduce_sum n_workers (prod_list xs)
                                                            (worker_ztX env) \<rparr>
                              in (t1 @ [Reduce_sum, Reduce_sum] @ t3 @ [Gather_stats],
                                  Inr \<lparr> r_z_hat = zh, r_ztz = Some ztz, r_ztX = Some ztX,
                                        r_log = lg \<rparr>)))
                      else (t1 @ t3 @ [Gather_stats],
                            Inr \<lparr> r_z_hat = zh, r_ztz = None, r_ztX = None, r_log = lg \<rparr>)))
      | _ \<Rightarrow> ([], Inl (ValueError ''unpack'')))"

subsection \<open>Reconstructing the cost curve\<close>

text \<open>Indexing a sequence of length \<open>n\<close>: negative indices count from the end.\<close>

definition py_index :: "nat \<Rightarrow> int \<Rightarrow> nat option" where
  "py_index n i =
     (if 0 \<le> i \<and> i < int n then Some (nat i)
      else if - int n \<le> i \<and> i < 0 then Some (nat (i + int n))
      else None)"

text \<open>
  \<open>z_hat[k0][tuple(pt0)]\<close> on an array of shape \<open>ns\<close>, with \<open>idx = k0 # pt0\<close>: the row-major
  number of the addressed block and its size. With as many indices as axes the block is
  one element; with fewer it is a sub-array, and \<open>+=\<close> adds to every element of it.
\<close>

fun nd_locate :: "nat list \<Rightarrow> int list \<Rightarrow> nat \<Rightarrow> (nat \<times> nat) option" where
  "nd_locate ns [] acc = Some (acc, prod_list ns)"
| "nd_locate [] (i # idx) acc = None"
| "nd_locate (n # ns) (i # idx) acc =
     (case py_index n i of None \<Rightarrow> None | Some j \<Rightarrow> nd_locate ns idx (acc * n + j))"

definition nd_add :: "nat list \<Rightarrow> real list \<Rightarrow> int list \<Rightarrow> real \<Rightarrow> real list option" where
  "nd_add ns xs idx dz =
     (case nd_locate ns idx 0 of
        None \<Rightarrow> None
      | Some (b, m) \<Rightarrow>
          Some (take (b * m) xs @ map (\<lambda>v. v + dz) (take m (drop (b * m) xs))
                @ drop (b * m + m) xs))"

text \<open>
  The first loop of \<open>reconstruct_pobj\<close> (lines 157 to 160) computes \<open>max_ii\<close>, which is only
  printed; what matters is that \<open>max_ii[rank]\<close> raises for a rank that is no index of a list
  of length \<open>n_jobs\<close>.
\<close>

definition ranks_ok :: "nat \<Rightarrow> log_entry list \<Rightarrow> bool" where
  "ranks_ok n es = list_all (\<lambda>(t, ii, rank, rest). py_index n rank \<noteq> None) es"

text \<open>The variables of the second loop (lines 162 to 174).\<close>

record replay_state =
  z_hat :: "real list"
  up_ii :: int
  last_ii :: "int list"
  next_cost :: int
  p_obj :: "(int \<times> real \<times> real) list"
  t_update :: "real option"

definition replay_step ::
  "(real list \<Rightarrow> real) \<Rightarrow> nat list \<Rightarrow> replay_state \<Rightarrow> log_entry \<Rightarrow> py_error + replay_state" where
  "replay_step cst ns st e =
     (case e of (t, ii, rank, k0, pt0, dz) \<Rightarrow>
        (case nd_add ns (z_hat st) (k0 # pt0) dz of
           None \<Rightarrow> Inl IndexError
         | Some z' \<Rightarrow>
             (case py_index (length (last_ii st)) rank of
                None \<Rightarrow> Inl IndexError
              | Some r \<Rightarrow>
                  (let up = up_ii st + (ii - last_ii st ! r);
                       st' = st \<lparr> z_hat := z', up_ii := up,
                                  last_ii := (last_ii st)[r := ii], t_update := Some t \<rparr>
                   in if up \<ge> next_cost st
                      then Inr (st' \<lparr> p_obj := p_obj st @ [(up, t, cst z')],
                                       next_cost := next_cost st * 2 \<rparr>)
                      else Inr st'))))"

fun replay ::
  "(real list \<Rightarrow> real) \<Rightarrow> nat list \<Rightarrow> replay_state \<Rightarrow> log_entry list \<Rightarrow> py_error + replay_state" where
  "replay cst ns st [] = Inr st"
| "replay cst ns st (e # es) =
     (case replay_step cst ns st e of Inl err \<Rightarrow> Inl err | Inr st' \<Rightarrow> replay cst ns st' es)"

text \<open>
  \<open>reconstruct_pobj\<close>. After an empty log the name \<open>t_update\<close> of line 177 was never bound.
\<close>

definition reconstruct_pobj ::
  "'r collaborators \<Rightarrow> ndarray \<Rightarrow> ndarray \<Rightarrow> real \<Rightarrow> log_entry list \<Rightarrow> int \<Rightarrow> int list
     \<Rightarrow> ndarray option \<Rightarrow> py_error + (int \<times> real \<times> real) list" where
  "reconstruct_pobj env X Dm rg lg nj vshape z_init =
     (case shape Dm of
        [] \<Rightarrow> Inl IndexError
      | n_atoms # _ \<Rightarrow>
          (case (case z_init of
                   None \<Rightarrow> (case np_shape (int n_atoms # vshape) of
                              Inl e \<Rightarrow> Inl e
                            | Inr ns \<Rightarrow> Inr \<lparr> shape = ns, data = replicate (prod_list ns) 0 \<rparr>)
                 | Some z \<Rightarrow> Inr z) of
             Inl e \<Rightarrow> Inl e
           | Inr z \<Rightarrow>
               (let es = sort lg in
                if \<not> ranks_ok (nat nj) es then Inl IndexError
                else
                  (case replay (\<lambda>zd. cost env X \<lparr> shape = shape z, data = zd \<rparr> Dm rg) (shape z)
                          \<lparr> z_hat = data z, up_ii = 0, last_ii = replicate (nat nj) 0,
                            next_cost = 1, p_obj = [], t_update = None \<rparr> es of
                     Inl e \<Rightarrow> Inl e
                   | Inr st \<Rightarrow>
                       (case t_update st of
                          None \<Rightarrow> Inl UnboundLocalError
                        | Some t \<Rightarrow>
                            Inr (p_obj st @ [(up_ii st, t,
                                   cost env X \<lparr> shape = shape z, data = z_hat st \<rparr> Dm rg)]))))))"

subsection \<open>dicod\<close>

datatype 'r dicod_result =
    Local 'r
  | Distributed stitched "ndarray option" "ndarray option" "(int \<times> real \<times> real) list option"

text \<open>\<open>_spawn_workers\<close>: the pool is requested and told to run the DICOD worker.\<close>

definition spawn_workers :: "int \<Rightarrow> string option \<Rightarrow> event list" where
  "spawn_workers nj hf = [Spawn_workers nj hf, Command ''TAG_WORKER_RUN_DICOD'']"

text \<open>
  \<open>dicod\<close>: the messages on the transport, and what the call returns or raises. With
  \<open>n_jobs = 1\<close> the result is whatever the local solver returns.
\<close>

definition dicod :: "'r collaborators \<Rightarrow> dicod_args \<Rightarrow> event list \<times> (py_error + 'r dicod_result)" where
  "dicod env a =
     (if n_jobs a = 1
      then ([], Inr (Local (coordinate_descent env (X_i a) (D a) (reg a) (z0 a) (n_seg a)
                              (strategy a) (tol a) (max_iter a) (timeout a) (z_positive a)
                              (freeze_support a) (return_ztz a) (timing a) (random_state a)
                              (verbose a))))
      else
        (case make_worker_grid env (X_i a) (D a) (n_jobs a) (w_world a) of
           Inl e \<Rightarrow> ([], Inl e)
         | Inr g \<Rightarrow>
             (case check_worker_grid g of
                Inl e \<Rightarrow> ([], Inl e)
              | Inr _ \<Rightarrow>
                  (let ps = base_params a @ [(''valid_shape'', PTuple (valid_shape g)),
                                             (''workers_topology'', PTuple (topology g))];
                       t0 = spawn_workers (n_jobs a) (hostfile a)
                   in case send_task_events env (D a) (workers_segments g) ps of
                        (t1, Inl e) \<Rightarrow> (t0 @ t1, Inl e)
                      | (t1, Inr _) \<Rightarrow>
                          (case recv_result env (nat (n_jobs a)) (shape (D a)) (valid_shape g)
                                  (workers_segments g) (return_ztz a) (timing a) of
                             (t2, Inl e) \<Rightarrow> (t0 @ t1 @ [Barrier] @ t2, Inl e)
                           | (t2, Inr r) \<Rightarrow>
                               (let tr = t0 @ t1 @ [Barrier] @ t2 @ [Barrier] in
                                if timing a then
                                  (case reconstruct_pobj env (X_i a) (D a) (reg a) (r_log r)
                                          (n_jobs a) (valid_shape g) (z0 a) of
                                     Inl e \<Rightarrow> (tr, Inl e)
                                   | Inr curve \<Rightarrow>
                                       (tr, Inr (Distributed (r_z_hat r) (r_ztz r) (r_ztX r)
                                                             (Some curve))))
                                else (tr, Inr (Distributed (r_z_hat r) (r_ztz r) (r_ztX r)
                                                           None))))))))"

section \<open>The outer loop dicodil (dicod/dicodil.py)\<close>

record dicodil_args =
  il_X :: ndarray
  il_D_hat :: ndarray
  il_reg :: real
  il_z_positive :: bool
  il_n_iter :: int
  il_strategy :: string
  il_n_seg :: pyval
  il_tol :: real
  il_dicod_kwargs :: "(string \<times> pyval) list"
  il_w_world :: "int option"
  il_n_jobs :: int
  il_hostfile :: "string option"
  il_stopping_pobj :: "real option"
  il_eps :: real
  il_raise_on_increase :: bool
  il_random_state :: "int option"
  il_verbose :: int

text \<open>
  What the workers and the library \<open>alphacsc\<close> give back to \<open>dicodil\<close>: the value
  \<open>lmbd_max\<close>, the cost before the loop, and for round \<open>ii\<close> the cost after the update of
  z, whether all activations are zero, and the cost after the update of D; then the cost
  after the last update of z.
\<close>

record iter_obs =
  cost_z :: real
  all_zero :: bool
  cost_d :: real

record il_world =
  lmbd_max :: real
  cost_init :: real
  observed :: "nat \<Rightarrow> iter_obs"
  cost_final :: real

datatype flow = Raise py_error | Break | Continue

text \<open>Lines 161 and 162.\<close>

definition stopping_check :: "real option \<Rightarrow> real \<Rightarrow> flow" where
  "stopping_check stopping_pobj p1 =
     (case stopping_pobj of
        None \<Rightarrow> Continue
      | Some s \<Rightarrow> if p1 < s then Break else Continue)"

text \<open>
  Lines 143 to 162, on \<open>p3 = pobj[-3]\<close>, \<open>p2 = pobj[-2]\<close> and \<open>p1 = pobj[-1]\<close>. The quotients
  are those of the source for costs different from 0; HOL's \<open>x / 0\<close> is 0.
\<close>

definition rel_decrease :: "real \<Rightarrow> real \<Rightarrow> real" where
  "rel_decrease p q = (p - q) / min p q"

definition check_progress :: "real \<Rightarrow> bool \<Rightarrow> real option \<Rightarrow> real \<Rightarrow> real \<Rightarrow> real \<Rightarrow> flow" where
  "check_progress eps raise_on_increase stopping_pobj p3 p2 p1 =
     (let dz = rel_decrease p3 p2;
          du = rel_decrease p2 p1
      in if dz < eps \<or> du < eps then
           (if dz < 0 \<and> raise_on_increase then Raise (RuntimeError_z dz)
            else if du < - (1 / 10 ^ 10) \<and> dz > 1 / 10 ^ 12 \<and> raise_on_increase
                 then Raise (RuntimeError_d du dz)
            else if dz < eps \<and> du < eps then Break
            else stopping_check stopping_pobj p1)
         else stopping_check stopping_pobj p1)"

text \<open>
  The loop of lines 86 to 162 on the list \<open>pobj\<close>, one observation per round. The updates
  of \<open>D_hat\<close> and \<open>z_hat\<close> do not enter the control flow and are left out.
\<close>

fun dicodil_loop ::
  "real \<Rightarrow> bool \<Rightarrow> real option \<Rightarrow> iter_obs list \<Rightarrow> real list \<Rightarrow> py_error + real list" where
  "dicodil_loop eps roi stop [] pobj = Inr pobj"
| "dicodil_loop eps roi stop (ob # obs) pobj =
     (let pobj1 = pobj @ [cost_z ob] in
      if all_zero ob then Inr pobj1
      else
        (let pobj2 = pobj1 @ [cost_d ob] in
         case py_index (length pobj2) (- 3) of
           None \<Rightarrow> Inl IndexError
         | Some i3 \<Rightarrow>
             (case check_progress eps roi stop (pobj2 ! i3) (cost_z ob) (cost_d ob) of
                Raise e \<Rightarrow> Inl e
              | Break \<Rightarrow> Inr pobj2
              | Continue \<Rightarrow> dicodil_loop eps roi stop obs pobj2)))"

definition il_params :: "dicodil_args \<Rightarrow> il_world \<Rightarrow> (string \<times> pyval) list" where
  "il_params a w =
     foldl (\<lambda>ps (k, v). AList.update k v ps) (il_dicod_kwargs a)
       [(''strategy'', PStr (il_strategy a)), (''n_seg'', il_n_seg a),
        (''z_positive'', PBool (il_z_positive a)), (''tol'', PFloat (il_tol a)),
        (''random_state'', opt_val PInt (il_random_state a)),
        (''reg'', PFloat (il_reg a * lmbd_max w)), (''verbose'', PInt (il_verbose a)),
        (''timing'', PBool False), (''use_soft_lock'', PBool True), (''has_z0'', PBool True),
        (''return_ztz'', PBool False), (''freeze_support'', PBool False),
        (''debug'', PBool False)]"

text \<open>
  \<open>dicodil\<close>: the messages up to the end of \<open>_send_task\<close>, and the list \<open>pobj\<close> that the
  call returns, or what it raises. The messages of the loop are not recorded.
\<close>

definition dicodil ::
  "'r collaborators \<Rightarrow> il_world \<Rightarrow> dicodil_args \<Rightarrow> event list \<times> (py_error + real list)" where
  "dicodil env w a =
     (case make_worker_grid env (il_X a) (il_D_hat a) (il_n_jobs a) (il_w_world a) of
        Inl e \<Rightarrow> ([], Inl e)
      | Inr g \<Rightarrow>
          (case check_worker_grid g of
             Inl e \<Rightarrow> ([], Inl e)
           | Inr _ \<Rightarrow>
               if length (shape (il_X a)) < 2 then ([], Inl IndexError)
               else
                 (case np_shape (int (hd (shape (il_D_hat a))) # valid_shape g) of
                    Inl e \<Rightarrow> ([], Inl e)
                  | Inr _ \<Rightarrow>
                      (let ps = foldl (\<lambda>ps (k, v). AList.update k v ps) (il_params a w)
                                  [(''valid_shape'', PTuple (valid_shape g)),
                                   (''workers_topology'', PTuple (topology g))];
                           t0 = [Spawn_workers (il_n_jobs a) (il_hostfile a),
                                 Command ''TAG_WORKER_RUN_DICODIL'']
                       in case send_task_events env (il_D_hat a) (workers_segments g) ps of
                            (t1, Inl e) \<Rightarrow> (t0 @ t1, Inl e)
                          | (t1, Inr _) \<Rightarrow>
                              (t0 @ t1,
                               case dicodil_loop (il_eps a) (il_raise_on_increase a)
                                      (il_stopping_pobj a)
                                      (map (observed w) [0..<nat (il_n_iter a)])
                                      [cost_init w] of
                                 Inl e \<Rightarrow> Inl e
                               | Inr pobj \<Rightarrow> Inr (pobj @ [cost_final w]))))))"

section \<open>The stages of the reconstruction, taken apart\<close>

text \<open>
  The description of the reconstruction names three stages: the sorted log is replayed
  onto z, which gives after each record the accumulated count, the time stamp and z;
  among these states the checkpoints are picked, one whenever the count has reached the
  threshold, which starts at 1 and doubles with each checkpoint; the last state is added
  as the final checkpoint. \<open>trajectory\<close> and \<open>pick_checkpoints\<close> are these stages, each a
  pass of its own, to be compared with the single loop of the source.
\<close>

fun trajectory ::
  "nat list \<Rightarrow> real list \<Rightarrow> int \<Rightarrow> int list \<Rightarrow> log_entry list
     \<Rightarrow> (int \<times> real \<times> real list) list option" where
  "trajectory ns z up lst [] = Some []"
| "trajectory ns z up lst ((t, ii, rank, k0, pt0, dz) # es) =
     (case nd_add ns z (k0 # pt0) dz of
        None \<Rightarrow> None
      | Some z' \<Rightarrow>
          (case py_index (length lst) rank of
             None \<Rightarrow> None
           | Some r \<Rightarrow>
               (case trajectory ns z' (up + (ii - lst ! r)) (lst[r := ii]) es of
                  None \<Rightarrow> None
                | Some tr \<Rightarrow> Some ((up + (ii - lst ! r), t, z') # tr))))"

fun pick_checkpoints ::
  "int \<Rightarrow> (int \<times> real \<times> real list) list \<Rightarrow> (int \<times> real \<times> real list) list" where
  "pick_checkpoints thr [] = []"
| "pick_checkpoints thr ((c, t, z) # tr) =
     (if c \<ge> thr then (c, t, z) # pick_checkpoints (2 * thr) tr
      else pick_checkpoints thr tr)"

definition with_cost ::
  "(real list \<Rightarrow> real) \<Rightarrow> int \<times> real \<times> real list \<Rightarrow> int \<times> real \<times> real" where
  "with_cost cst s = (case s of (c, t, z) \<Rightarrow> (c, t, cst z))"

definition spec_cost_curve ::
  "(real list \<Rightarrow> real) \<Rightarrow> (int \<times> real \<times> real list) list \<Rightarrow> (int \<times> real \<times> real) list" where
  "spec_cost_curve cst tr = map (with_cost cst) (pick_checkpoints 1 tr @ [last tr])"

text \<open>The count, the time stamp and z after a trajectory that started in state \<open>st\<close>.\<close>

definition final_of ::
  "replay_state \<Rightarrow> (int \<times> real \<times> real list) list \<Rightarrow> int \<times> real option \<times> real list" where
  "final_of st tr =
     (if tr = [] then (up_ii st, t_update st, z_hat st)
      else (case last tr of (c, t, z) \<Rightarrow> (c, Some t, z)))"


section \<open>Concrete runs\<close>

text \<open>
  A signal of length 20 with one channel, one atom of length 3, two workers. The
  segmentation cuts each axis into equal tiles; the local solver answers with its
  iteration cap; the cost is the sum of the activations.
\<close>

definition example_Segmentation :: "int list \<Rightarrow> int list \<Rightarrow> int list \<Rightarrow> segmentation" where
  "example_Segmentation ns ss ov =
     \<lparr> effective_n_seg = nat (prod_list ns),
       get_seg_shape = (\<lambda>i inner. map2 (\<lambda>s n. s div n) ss ns),
       get_seg_slice = (\<lambda>i inner. map2 (\<lambda>s n. (int i * (s div n), (int i + 1) * (s div n))) ss ns),
       get_seg_bounds = (\<lambda>i. map2 (\<lambda>s n. (int i * (s div n), (int i + 1) * (s div n))) ss ns) \<rparr>"

definition example_env :: "nat collaborators" where
  "example_env =
     \<lparr> coordinate_descent = (\<lambda>X Dm rg z ns st tl mi tmo zp fs rz tm rs vb. nat mi),
       Segmentation = example_Segmentation,
       cost = (\<lambda>X z Dm rg. sum_list (data z)),
       CHECK_WARM_BETA = False,
       GET_OVERLAP_Z_HAT = False,
       worker_z = (\<lambda>i. replicate 9 0),
       worker_ztz = (\<lambda>i. [real i + 1, 2, 3, 4, 5]),
       worker_ztX = (\<lambda>i. [1, real i, 1]),
       worker_log = (\<lambda>i. [(1 / (real i + 1), 1, int i, 0, [int i + 2], 1)]),
       debug_plot_ok = True,
       warm_beta_probe = (\<lambda>i. True),
       warm_beta_ok = True \<rparr>"

definition example_args :: dicod_args where
  "example_args =
     \<lparr> X_i = \<lparr>shape = [1, 20], data = replicate 20 1\<rparr>,
       D = \<lparr>shape = [1, 1, 3], data = [1, 1, 1]\<rparr>,
       reg = 1, z0 = None, n_seg = PStr ''auto'', strategy = ''greedy'',
       use_soft_lock = True, n_jobs = 2, w_world = None, hostfile = None,
       tol = 1 / 100000, max_iter = 100000, timeout = None, z_positive = False,
       return_ztz = True, freeze_support = False, timing = True, random_state = None,
       verbose = 0, debug = False \<rparr>"

definition example_grid :: "int \<Rightarrow> worker_grid" where
  "example_grid nj = \<lparr> atom_shape = [3], valid_shape = [18], topology = [nj],
       workers_segments = example_Segmentation [nj] [18] [2] \<rparr>"

definition example_params :: "(string \<times> pyval) list" where
  "example_params =
     [(''strategy'', PStr ''greedy''), (''tol'', PFloat (1 / 100000)),
      (''max_iter'', PInt 100000), (''timeout'', PNone),
      (''n_seg'', PStr ''auto''), (''z_positive'', PBool False),
      (''verbose'', PInt 0), (''timing'', PBool True),
      (''debug'', PBool False), (''random_state'', PNone),
      (''reg'', PFloat 1), (''return_ztz'', PBool True),
      (''use_soft_lock'', PBool True), (''has_z0'', PBool False),
      (''freeze_support'', PBool False), (''valid_shape'', PTuple [18]),
      (''workers_topology'', PTuple [2])]"

definition example_trace :: "event list" where
  "example_trace =
     [Spawn_workers 2 None, Command ''TAG_WORKER_RUN_DICOD'', Bcast_params example_params,
      Bcast_array \<lparr>shape = [1, 1, 3], data = [1, 1, 1]\<rparr>, Send_X 0 [(0, 11)],
      Send_X 1 [(9, 20)], Barrier, Barrier, Recv_z 0, Recv_z 1, Reduce_sum,
      Reduce_sum, Recv_log 0, Recv_log 1, Gather_stats, Barrier]"

definition example_z_hat :: stitched where
  "example_z_hat =
     \<lparr> z_shape = [1, 18],
       z_tiles = [([(0, 9)], [1, 9], [0, 0, 0, 0, 0, 0, 0, 0, 0]),
                  ([(9, 18)], [1, 9], [0, 0, 0, 0, 0, 0, 0, 0, 0])] \<rparr>"

definition example_ztz :: ndarray where
  "example_ztz = \<lparr>shape = [1, 1, 5], data = [3, 4, 6, 8, 10]\<rparr>"

definition example_ztX :: ndarray where
  "example_ztX = \<lparr>shape = [1, 1, 3], data = [2, 1, 2]\<rparr>"

definition example_curve :: "(int \<times> real \<times> real) list" where
  "example_curve = [(1, 1 / 2, 1), (2, 1, 2), (2, 1, 2)]"

text \<open>The same workers when none of them has accepted an update.\<close>

definition silent_env :: "nat collaborators" where
  "silent_env = example_env \<lparr> worker_log := (\<lambda>i. []) \<rparr>"

text \<open>A 1D and a 2D problem with two atoms, the first of which is zero.\<close>

definition example_problem :: problem where
  "example_problem =
     \<lparr> pb_D = \<lparr>shape = [2, 1, 2], data = [0, 0, 1, 2]\<rparr>,
       pb_x = \<lparr>shape = [1, 5], data = [1, 2, 3, 4, 5]\<rparr>,
       pb_DD = Some [0, 0, 0, 0, 0, 0, 0, 0, 2, 5, 2, 0],
       pb_lmbd = 1 / 10 \<rparr>"

definition example_solver :: DICOD where
  "example_solver = DICOD_init 4 1 None False 0 False 0 7 (1 / 10 ^ 10) 1000 40"

definition example_sent :: sent_1d where
  "example_sent =
     \<lparr> bc_alpha_k = [1, 5], bc_DD = [0, 0, 0, 0, 0, 0, 0, 0, 2, 5, 2, 0],
       bc_D = [0, 0, 1, 2],
       bc_N = [1, 2, 2, 5, 1 / 10, 1 / 10 ^ 10, 40, 250, 0, 0, 1, 0, 0, 1000],
       self_L = 4, self_L_proc = 2 \<rparr>"

definition example_problem_2d :: problem where
  "example_problem_2d =
     \<lparr> pb_D = \<lparr>shape = [2, 1, 1, 2], data = [0, 0, 1, 2]\<rparr>,
       pb_x = \<lparr>shape = [1, 3, 4], data = replicate 12 1\<rparr>,
       pb_DD = None,
       pb_lmbd = 1 / 10 \<rparr>"

definition example_solver_2d :: DICOD2D where
  "example_solver_2d =
     \<lparr> self_debug = 0, self_n_jobs = 4, self_hostfile = None,
       self_logging = 0, self_use_seg = 1, self_positive = 0,
       self_algorithm = 0, self_patience = 1000,
       self_tol = 1 / 10 ^ 10, self_i_max = 1000, self_t_max = 40,
       self_w_world = 2, self_h_world = 2 \<rparr>"

definition example_sent_2d :: sent_2d where
  "example_sent_2d =
     \<lparr> bc_alpha_k = [1, 5], bc_DD = [5], bc_D = [0, 0, 1, 2],
       bc_N = [1, 2, 1, 2, 3, 4, 2, 1 / 10, 1 / 10 ^ 10, 40, 250, 0, 0, 1, 0, 0, 1000],
       self_h_cod = 3, self_h_proc = 1, self_w_cod = 3, self_w_proc = 2 \<rparr>"

text \<open>A call of \<open>dicodil\<close> on the signal and the atom of the first run.\<close>

definition example_il_args :: dicodil_args where
  "example_il_args =
     \<lparr> il_X = \<lparr>shape = [1, 20], data = replicate 20 1\<rparr>,
       il_D_hat = \<lparr>shape = [1, 1, 3], data = [1, 1, 1]\<rparr>,
       il_reg = 1 / 10, il_z_positive = True, il_n_iter = 100, il_strategy = ''greedy'',
       il_n_seg = PStr ''auto'', il_tol = 1 / 10,
       il_dicod_kwargs = [(''max_iter'', PInt 100000000), (''timeout'', PNone)],
       il_w_world = None, il_n_jobs = 2, il_hostfile = None, il_stopping_pobj = None,
       il_eps = 1 / 100000, il_raise_on_increase = True, il_random_state = None,
       il_verbose = 0 \<rparr>"

definition example_il_world :: il_world where
  "example_il_world =
     \<lparr> lmbd_max = 2, cost_init = 10,
       observed = (\<lambda>ii. \<lparr> cost_z = 12, all_zero = False, cost_d = 11 \<rparr>),
       cost_final = 9 \<rparr>"

section \<open>Properties\<close>

subsection \<open>The pieces of dicod\<close>

lemma make_worker_grid_fields:
  assumes "make_worker_grid env X Dm nj ww = Inr g"
  shows "atom_shape g = drop 2 (shape Dm)"
    and "valid_shape g = valid_shape_of (tl (shape X)) (drop 2 (shape Dm))"
    and "length (shape Dm) = Suc (length (shape X))"
    and "workers_topology nj ww (tl (shape X)) = Inr (topology g)"
    and "workers_segments g
         = Segmentation env (topology g) (valid_shape g)
             (map (\<lambda>size_atom_ax. int size_atom_ax - 1) (atom_shape g))"
  using assms
  by (auto simp: make_worker_grid_def Let_def split: list.splits if_splits sum.splits)

lemma send_task_events_err:
  "send_task_events env Dm segs ps = (t, Inl e) \<Longrightarrow> e = AssertionError"
  by (auto simp: send_task_events_def Let_def split: if_splits)

lemma recv_result_err:
  "recv_result env nw ds vs segs rztz tim = (t, Inl e) \<Longrightarrow>
     e = ValueError ''negative dimensions are not allowed'' \<or> e = ValueError ''unpack''"
  by (auto simp: recv_result_def Let_def np_shape_def split: list.splits if_splits sum.splits)

lemma replay_step_err: "replay_step cst ns st e = Inl err \<Longrightarrow> err = IndexError"
  by (auto simp: replay_step_def Let_def split: prod.splits option.splits if_splits)

lemma replay_err: "replay cst ns st es = Inl err \<Longrightarrow> err = IndexError"
  by (induction es arbitrary: st) (auto split: sum.splits dest: replay_step_err)

lemma reconstruct_pobj_err:
  "reconstruct_pobj env X Dm rg lg nj vs zi = Inl e \<Longrightarrow>
     e = IndexError \<or> e = UnboundLocalError
       \<or> e = ValueError ''negative dimensions are not allowed''"
  by (auto simp: reconstruct_pobj_def Let_def np_shape_def
           split: list.splits option.splits sum.splits if_splits dest: replay_err)

lemma dicod_err_after_check:
  assumes "n_jobs a \<noteq> 1"
    and "make_worker_grid env (X_i a) (D a) (n_jobs a) (w_world a) = Inr g"
    and "check_worker_grid g = Inr ()"
  shows "snd (dicod env a) \<noteq> Inl (ValueError ''Using too many cores.'')"
  using assms
  by (auto simp: dicod_def Let_def split: sum.splits prod.splits if_splits
           dest: send_task_events_err recv_result_err reconstruct_pobj_err)

lemma dicod_distributed:
  assumes "snd (dicod env a) = Inr (Distributed zh ztz ztX crv)"
  shows "\<exists>g r. n_jobs a \<noteq> 1
          \<and> make_worker_grid env (X_i a) (D a) (n_jobs a) (w_world a) = Inr g
          \<and> check_worker_grid g = Inr ()
          \<and> snd (recv_result env (nat (n_jobs a)) (shape (D a)) (valid_shape g)
                   (workers_segments g) (return_ztz a) (timing a)) = Inr r
          \<and> zh = r_z_hat r \<and> ztz = r_ztz r \<and> ztX = r_ztX r
          \<and> (if timing a
              then \<exists>c. crv = Some c \<and> reconstruct_pobj env (X_i a) (D a) (reg a) (r_log r)
                                        (n_jobs a) (valid_shape g) (z0 a) = Inr c
              else crv = None)"
  using assms
  by (auto simp: dicod_def Let_def split: if_splits sum.splits prod.splits)

lemma pos_of_dims: "\<forall>n\<in>set xs. \<not> 2 * int n < 1 \<Longrightarrow> x \<in> set xs \<Longrightarrow> 0 < x"
  by (cases "x = 0") auto

lemma recv_result_fields:
  assumes "snd (recv_result env nw ds vs segs rztz tim) = Inr r"
  shows "z_shape (r_z_hat r) = int (hd ds) # vs"
    and "rztz \<Longrightarrow> \<exists>zz zx. r_ztz r = Some zz \<and> r_ztX r = Some zx
            \<and> map int (shape zz) = int (hd ds) # int (hd ds) # map (\<lambda>s. 2 * int s - 1) (drop 2 ds)
            \<and> shape zx = ds
            \<and> data zz = reduce_sum nw (prod_list (shape zz)) (worker_ztz env)
            \<and> data zx = reduce_sum nw (prod_list (shape zx)) (worker_ztX env)"
    and "\<not> rztz \<Longrightarrow> r_ztz r = None \<and> r_ztX r = None"
    and "r_log r = (if tim then concat (map (worker_log env) [0..<effective_n_seg segs]) else [])"
  using assms
  by (auto simp: recv_result_def Let_def np_shape_def comp_def list_ex_iff
           split: list.splits if_splits sum.splits prod.splits dest: pos_of_dims)

subsection \<open>The run with two workers, evaluated\<close>

lemma example_make_grid:
  "make_worker_grid example_env (X_i example_args) (D example_args) 2 None
   = Inr (example_grid 2)"
  by (simp add: make_worker_grid_def example_env_def example_args_def example_grid_def
      valid_shape_of_def workers_topology_def find_grid_size_def Let_def)

lemma example_make_grid_4:
  "make_worker_grid example_env (X_i example_args) (D example_args) 4 None
   = Inr (example_grid 4)"
  by (simp add: make_worker_grid_def example_env_def example_args_def example_grid_def
      valid_shape_of_def workers_topology_def find_grid_size_def Let_def)

lemma example_tile: "get_seg_shape (workers_segments (example_grid 2)) 0 True = [9]"
  and example_tile_4: "get_seg_shape (workers_segments (example_grid 4)) 0 True = [4]"
  by (simp_all add: example_grid_def example_Segmentation_def)

lemma example_check: "check_worker_grid (example_grid 2) = Inr ()"
  by (simp add: check_worker_grid_def too_many_cores_def example_tile)
     (simp add: example_grid_def)

lemma example_params_eq:
  "base_params example_args @ [(''valid_shape'', PTuple [18]), (''workers_topology'', PTuple [2])]
   = example_params"
  by (simp add: base_params_def example_args_def example_params_def opt_val_def)

lemma example_send:
  "send_task_events example_env (D example_args) (workers_segments (example_grid 2)) example_params
   = ([Bcast_params example_params, Bcast_array \<lparr>shape = [1, 1, 3], data = [1, 1, 1]\<rparr>,
       Send_X 0 [(0, 11)], Send_X 1 [(9, 20)], Barrier], Inr ())"
  by (simp add: send_task_events_def example_env_def example_grid_def example_Segmentation_def
        send_segment_def is_true_def example_params_def example_args_def upt_rec Let_def)

lemma example_recv:
  "recv_result example_env 2 [1, 1, 3] [18] (workers_segments (example_grid 2)) True True
   = ([Recv_z 0, Recv_z 1, Reduce_sum, Reduce_sum, Recv_log 0, Recv_log 1, Gather_stats],
      Inr \<lparr> r_z_hat = example_z_hat, r_ztz = Some example_ztz, r_ztX = Some example_ztX,
            r_log = [(1, 1, 0, 0, [2], 1), (1 / 2, 1, 1, 0, [3], 1)] \<rparr>)"
  by code_simp

lemma example_reconstruct:
  "reconstruct_pobj example_env (X_i example_args) (D example_args) 1
      [(1, 1, 0, 0, [2], 1), (1 / 2, 1, 1, 0, [3], 1)] 2 [18] None
   = Inr example_curve"
  by code_simp

lemma example_run:
  "dicod example_env example_args
   = (example_trace, Inr (Distributed example_z_hat (Some example_ztz) (Some example_ztX)
                            (Some example_curve)))"
proof -
  have a: "n_jobs example_args = 2" "w_world example_args = None" "hostfile example_args = None"
    "shape (D example_args) = [1, 1, 3]" "return_ztz example_args" "timing example_args"
    "reg example_args = 1" "z0 example_args = None" "valid_shape (example_grid 2) = [18]"
    "topology (example_grid 2) = [2]"
    by (simp_all add: example_args_def example_grid_def)
  show ?thesis
    unfolding dicod_def
    by (simp add: a example_make_grid example_check example_params_eq example_send
          example_recv example_reconstruct spawn_workers_def example_trace_def
          del: One_nat_def)
qed

subsection \<open>Shapes, and the errors of the outer loop\<close>

lemma valid_shape_of_nth:
  "length ss = length ats \<Longrightarrow> i < length ss \<Longrightarrow>
     valid_shape_of ss ats ! i = int (ss ! i) - int (ats ! i) + 1"
  by (simp add: valid_shape_of_def)

lemma valid_shape_of_length: "length (valid_shape_of ss ats) = min (length ss) (length ats)"
  by (simp add: valid_shape_of_def)

lemma check_progress_raise:
  "check_progress eps roi stop p3 p2 p1 = Raise e \<Longrightarrow>
     (\<exists>dz. e = RuntimeError_z dz) \<or> (\<exists>du dz. e = RuntimeError_d du dz)"
  by (auto simp: check_progress_def stopping_check_def Let_def split: if_splits option.splits)

lemma dicodil_loop_err:
  "dicodil_loop eps roi stop obs pobj = Inl e \<Longrightarrow>
     e = IndexError \<or> (\<exists>dz. e = RuntimeError_z dz) \<or> (\<exists>du dz. e = RuntimeError_d du dz)"
proof (induction obs arbitrary: pobj)
  case Nil
  then show ?case by simp
next
  case (Cons ob obs)
  show ?case
  proof (cases "all_zero ob")
    case True
    then show ?thesis using Cons.prems by (simp add: Let_def)
  next
    case False
    then show ?thesis
      using Cons.prems Cons.IH
      by (auto simp: Let_def split: option.splits flow.splits dest: check_progress_raise)
  qed
qed

lemma dicodil_err_after_check:
  assumes "make_worker_grid env (il_X b) (il_D_hat b) (il_n_jobs b) (il_w_world b) = Inr g"
    and "check_worker_grid g = Inr ()"
  shows "snd (dicodil env w b) \<noteq> Inl (ValueError ''Using too many cores.'')"
  using assms
  by (auto simp: dicodil_def Let_def np_shape_def split: sum.splits prod.splits if_splits
           dest: send_task_events_err dicodil_loop_err)

lemma too_many_cores_iff:
  "too_many_cores ashape wvs
   \<longleftrightarrow> (\<exists>(size_atom_ax, size_valid_ax) \<in> set (zip ashape wvs).
          2 * int size_atom_ax - 1 \<ge> size_valid_ax)"
  by (simp add: too_many_cores_def list_ex_iff)

subsection \<open>The single-worker path\<close>

text \<open>
  C1. With \<open>n_jobs = 1\<close> the call does nothing on the transport (no worker is requested,
  no message sent) and returns what the local solver returns for the same \<open>X_i\<close>, \<open>D\<close>,
  \<open>reg\<close>, \<open>z0\<close>, \<open>n_seg\<close>, \<open>strategy\<close>, \<open>tol\<close>, \<open>max_iter\<close>, \<open>timeout\<close>, \<open>z_positive\<close>,
  \<open>freeze_support\<close>, \<open>return_ztz\<close>, \<open>timing\<close>, \<open>random_state\<close> and \<open>verbose\<close>.
\<close>

theorem dicod_single_worker:
  "n_jobs a = 1 \<Longrightarrow>
     dicod env a =
       ([], Inr (Local (coordinate_descent env (X_i a) (D a) (reg a) (z0 a) (n_seg a)
                          (strategy a) (tol a) (max_iter a) (timeout a) (z_positive a)
                          (freeze_support a) (return_ztz a) (timing a) (random_state a)
                          (verbose a))))"
  by (simp add: dicod_def)

theorem dicod_single_worker_witness:
  "n_jobs (example_args \<lparr> n_jobs := 1 \<rparr>) = 1
   \<and> dicod example_env (example_args \<lparr> n_jobs := 1 \<rparr>) = ([], Inr (Local 100000))"
proof -
  have h: "n_jobs (example_args \<lparr> n_jobs := 1 \<rparr>) = 1" by simp
  from dicod_single_worker [OF h, of example_env] show ?thesis
    by (simp add: example_env_def example_args_def)
qed

subsection \<open>The valid shape\<close>

text \<open>
  C2. The activation has the valid shape: on every axis the size of the signal minus
  the size of the atom plus 1. This is the shape that \<open>dicod\<close> computes for the
  segmentation and the shape, after the number of atoms, of the activation it returns
  from the workers; the 1D coordinator has the code length \<open>L = T - S + 1\<close>, and the 2D
  coordinator the code height and width by the same formula.
\<close>

theorem valid_shape_formula:
  "(make_worker_grid env X Dm nj ww = Inr g \<and> shape X = c # ss \<and> shape Dm = k # c' # ats \<longrightarrow>
      length ats = length ss \<and> length (valid_shape g) = length ss
      \<and> (\<forall>i < length ss. valid_shape g ! i = int (ss ! i) - int (ats ! i) + 1))
   \<and> (snd (dicod env a) = Inr (Distributed zh ztz ztX crv)
        \<and> shape (X_i a) = c # ss \<and> shape (D a) = k # c' # ats \<longrightarrow>
      length (z_shape zh) = Suc (length ss) \<and> hd (z_shape zh) = int k
      \<and> (\<forall>i < length ss. z_shape zh ! Suc i = int (ss ! i) - int (ats ! i) + 1))
   \<and> (send_task self pb = Inr r \<and> shape (pb_D pb) = [K, d, S]
        \<and> shape (pb_x pb) = dx # T # rest \<longrightarrow>
      self_L r = int T - int S + 1)
   \<and> (send_task_2d cdd self2 pb2 DD = Inr r2 \<and> shape (pb_D pb2) = [K2, d2, h_dic, w_dic]
        \<and> shape (pb_x pb2) = [dx2, h_sig, w_sig] \<longrightarrow>
      self_h_cod r2 = int h_sig - int h_dic + 1 \<and> self_w_cod r2 = int w_sig - int w_dic + 1)"
proof (intro conjI impI)
  assume h: "make_worker_grid env X Dm nj ww = Inr g \<and> shape X = c # ss
             \<and> shape Dm = k # c' # ats"
  then have vs: "valid_shape g = valid_shape_of ss ats" and len: "length ats = length ss"
    using make_worker_grid_fields(2,3) [of env X Dm nj ww g] by auto
  show "length ats = length ss" by (rule len)
  show "length (valid_shape g) = length ss" by (simp add: vs valid_shape_of_length len)
  show "\<forall>i < length ss. valid_shape g ! i = int (ss ! i) - int (ats ! i) + 1"
    by (simp add: vs valid_shape_of_nth len)
next
  assume h: "snd (dicod env a) = Inr (Distributed zh ztz ztX crv)
             \<and> shape (X_i a) = c # ss \<and> shape (D a) = k # c' # ats"
  from dicod_distributed [of env a zh ztz ztX crv] h
  obtain g :: worker_grid and r :: received where
    g: "make_worker_grid env (X_i a) (D a) (n_jobs a) (w_world a) = Inr g"
    and r: "snd (recv_result env (nat (n_jobs a)) (shape (D a)) (valid_shape g)
                  (workers_segments g) (return_ztz a) (timing a)) = Inr r"
    and zh: "zh = r_z_hat r"
    by blast
  have vs: "valid_shape g = valid_shape_of ss ats" and len: "length ats = length ss"
    using make_worker_grid_fields(2,3) [OF g] h by auto
  have zs: "z_shape zh = int k # valid_shape_of ss ats"
    using recv_result_fields(1) [OF r] h by (simp add: zh vs)
  show "length (z_shape zh) = Suc (length ss)" by (simp add: zs valid_shape_of_length len)
  show "hd (z_shape zh) = int k" by (simp add: zs)
  show "\<forall>i < length ss. z_shape zh ! Suc i = int (ss ! i) - int (ats ! i) + 1"
    by (simp add: zs valid_shape_of_nth len)
next
  assume "send_task self pb = Inr r \<and> shape (pb_D pb) = [K, d, S]
          \<and> shape (pb_x pb) = dx # T # rest"
  then show "self_L r = int T - int S + 1"
    by (auto simp: send_task_def Let_def split: option.splits if_splits)
next
  assume h: "send_task_2d cdd self2 pb2 DD = Inr r2 \<and> shape (pb_D pb2) = [K2, d2, h_dic, w_dic]
          \<and> shape (pb_x pb2) = [dx2, h_sig, w_sig]"
  then show "self_h_cod r2 = int h_sig - int h_dic + 1"
    by (auto simp: send_task_2d_def Let_def split: if_splits)
  from h show "self_w_cod r2 = int w_sig - int w_dic + 1"
    by (auto simp: send_task_2d_def Let_def split: if_splits)
qed

lemma example_send_task: "send_task example_solver example_problem = Inr example_sent"
  by code_simp

lemma example_send_task_2d:
  "send_task_2d (\<lambda>pb DD. [5]) example_solver_2d example_problem_2d None = Inr example_sent_2d"
  by code_simp

theorem valid_shape_formula_witness:
  "make_worker_grid example_env (X_i example_args) (D example_args) 2 None
     = Inr (example_grid 2)
   \<and> shape (X_i example_args) = [1, 20] \<and> shape (D example_args) = [1, 1, 3]
   \<and> valid_shape (example_grid 2) ! 0 = 20 - 3 + 1
   \<and> snd (dicod example_env example_args)
       = Inr (Distributed example_z_hat (Some example_ztz) (Some example_ztX) (Some example_curve))
   \<and> z_shape example_z_hat ! Suc 0 = 20 - 3 + 1
   \<and> send_task example_solver example_problem = Inr example_sent
   \<and> shape (pb_D example_problem) = [2, 1, 2] \<and> shape (pb_x example_problem) = [1, 5]
   \<and> self_L example_sent = 5 - 2 + 1
   \<and> send_task_2d (\<lambda>pb DD. [5]) example_solver_2d example_problem_2d None = Inr example_sent_2d
   \<and> shape (pb_D example_problem_2d) = [2, 1, 1, 2] \<and> shape (pb_x example_problem_2d) = [1, 3, 4]
   \<and> self_h_cod example_sent_2d = 3 - 1 + 1 \<and> self_w_cod example_sent_2d = 4 - 2 + 1"
proof -
  have s: "shape (X_i example_args) = [1, 20]" "shape (D example_args) = [1, 1, 3]"
    by (simp_all add: example_args_def)
  have run: "snd (dicod example_env example_args)
       = Inr (Distributed example_z_hat (Some example_ztz) (Some example_ztX) (Some example_curve))"
    by (simp add: example_run)
  have p: "shape (pb_D example_problem) = [2, 1, 2]" "shape (pb_x example_problem) = [1, 5]"
    "shape (pb_D example_problem_2d) = [2, 1, 1, 2]" "shape (pb_x example_problem_2d) = [1, 3, 4]"
    by (simp_all add: example_problem_def example_problem_2d_def)
  from valid_shape_formula
    [where env = example_env and X = "X_i example_args" and Dm = "D example_args" and nj = 2
       and ww = None and g = "example_grid 2" and c = 1 and ss = "[20]" and k = 1 and c' = 1
       and ats = "[3]" and a = example_args and zh = example_z_hat and ztz = "Some example_ztz"
       and ztX = "Some example_ztX" and crv = "Some example_curve"
       and self = example_solver and pb = example_problem and r = example_sent
       and K = 2 and d = 1 and S = 2 and dx = 1 and T = 5 and rest = "[]"
       and cdd = "\<lambda>pb DD. [5]" and ?self2.0 = example_solver_2d and ?pb2.0 = example_problem_2d
       and DD = None and ?r2.0 = example_sent_2d and ?K2.0 = 2 and ?d2.0 = 1 and h_dic = 1
       and w_dic = 2 and ?dx2.0 = 1 and h_sig = 3 and w_sig = 4]
  show ?thesis
    using example_make_grid run s p example_send_task example_send_task_2d by simp
qed

subsection \<open>More evaluated runs\<close>

lemma example_run_4:
  "dicod example_env (example_args \<lparr> n_jobs := 4 \<rparr>)
   = ([], Inl (ValueError ''Using too many cores.''))"
  by code_simp

lemma example_run_no_ztz:
  "snd (dicod example_env (example_args \<lparr> return_ztz := False, timing := False \<rparr>))
   = Inr (Distributed example_z_hat None None None)"
  by code_simp

lemma example_il_grid:
  "make_worker_grid example_env (il_X example_il_args) (il_D_hat example_il_args) 2 None
   = Inr (example_grid 2)"
  "make_worker_grid example_env (il_X example_il_args) (il_D_hat example_il_args) 4 None
   = Inr (example_grid 4)"
  using example_make_grid example_make_grid_4
  by (simp_all add: example_il_args_def example_args_def)

subsection \<open>The size check\<close>

text \<open>
  C3. When the setup of \<open>dicod\<close> with more than one worker has built the segmentation,
  the call raises the ValueError "Using too many cores." exactly if on some axis the inner
  tile of worker 0 is not larger than \<open>2 * size_atom_ax - 1\<close>; it then raises with an empty
  transport trace, so before any worker is requested and any message sent. \<open>dicodil\<close>
  does the same on the same statements.
\<close>

theorem too_many_cores_error:
  "(n_jobs a \<noteq> 1 \<and> make_worker_grid env (X_i a) (D a) (n_jobs a) (w_world a) = Inr g \<longrightarrow>
      atom_shape g = drop 2 (shape (D a)) \<and>
      (if \<exists>(size_atom_ax, size_valid_ax)
             \<in> set (zip (atom_shape g) (get_seg_shape (workers_segments g) 0 True)).
             2 * int size_atom_ax - 1 \<ge> size_valid_ax
       then dicod env a = ([], Inl (ValueError ''Using too many cores.''))
       else snd (dicod env a) \<noteq> Inl (ValueError ''Using too many cores.'')))
   \<and> (make_worker_grid env (il_X b) (il_D_hat b) (il_n_jobs b) (il_w_world b) = Inr g' \<longrightarrow>
      (if \<exists>(size_atom_ax, size_valid_ax)
             \<in> set (zip (atom_shape g') (get_seg_shape (workers_segments g') 0 True)).
             2 * int size_atom_ax - 1 \<ge> size_valid_ax
       then dicodil env w b = ([], Inl (ValueError ''Using too many cores.''))
       else snd (dicodil env w b) \<noteq> Inl (ValueError ''Using too many cores.'')))"
proof (intro conjI impI)
  assume h: "n_jobs a \<noteq> 1 \<and> make_worker_grid env (X_i a) (D a) (n_jobs a) (w_world a) = Inr g"
  then show "atom_shape g = drop 2 (shape (D a))"
    using make_worker_grid_fields(1) by blast
  show "if \<exists>(size_atom_ax, size_valid_ax)
             \<in> set (zip (atom_shape g) (get_seg_shape (workers_segments g) 0 True)).
             2 * int size_atom_ax - 1 \<ge> size_valid_ax
       then dicod env a = ([], Inl (ValueError ''Using too many cores.''))
       else snd (dicod env a) \<noteq> Inl (ValueError ''Using too many cores.'')"
  proof (cases "too_many_cores (atom_shape g) (get_seg_shape (workers_segments g) 0 True)")
    case True
    then have "dicod env a = ([], Inl (ValueError ''Using too many cores.''))"
      using h by (simp add: dicod_def check_worker_grid_def)
    then show ?thesis using True by (simp add: too_many_cores_iff)
  next
    case False
    then have "check_worker_grid g = Inr ()" by (simp add: check_worker_grid_def)
    then have "snd (dicod env a) \<noteq> Inl (ValueError ''Using too many cores.'')"
      using h dicod_err_after_check by blast
    then show ?thesis using False by (simp add: too_many_cores_iff)
  qed
next
  assume h: "make_worker_grid env (il_X b) (il_D_hat b) (il_n_jobs b) (il_w_world b) = Inr g'"
  show "if \<exists>(size_atom_ax, size_valid_ax)
             \<in> set (zip (atom_shape g') (get_seg_shape (workers_segments g') 0 True)).
             2 * int size_atom_ax - 1 \<ge> size_valid_ax
       then dicodil env w b = ([], Inl (ValueError ''Using too many cores.''))
       else snd (dicodil env w b) \<noteq> Inl (ValueError ''Using too many cores.'')"
  proof (cases "too_many_cores (atom_shape g') (get_seg_shape (workers_segments g') 0 True)")
    case True
    then have "dicodil env w b = ([], Inl (ValueError ''Using too many cores.''))"
      using h by (simp add: dicodil_def check_worker_grid_def)
    then show ?thesis using True by (simp add: too_many_cores_iff)
  next
    case False
    then have "check_worker_grid g' = Inr ()" by (simp add: check_worker_grid_def)
    then have "snd (dicodil env w b) \<noteq> Inl (ValueError ''Using too many cores.'')"
      using h dicodil_err_after_check by blast
    then show ?thesis using False by (simp add: too_many_cores_iff)
  qed
qed

theorem too_many_cores_error_witness:
  "n_jobs example_args \<noteq> 1
   \<and> make_worker_grid example_env (X_i example_args) (D example_args) 2 None
       = Inr (example_grid 2)
   \<and> zip (atom_shape (example_grid 2)) (get_seg_shape (workers_segments (example_grid 2)) 0 True)
       = [(3, 9)]
   \<and> snd (dicod example_env example_args) \<noteq> Inl (ValueError ''Using too many cores.'')
   \<and> make_worker_grid example_env (X_i example_args) (D example_args) 4 None
       = Inr (example_grid 4)
   \<and> zip (atom_shape (example_grid 4)) (get_seg_shape (workers_segments (example_grid 4)) 0 True)
       = [(3, 4)]
   \<and> dicod example_env (example_args \<lparr> n_jobs := 4 \<rparr>)
       = ([], Inl (ValueError ''Using too many cores.''))
   \<and> snd (dicodil example_env example_il_world example_il_args)
       \<noteq> Inl (ValueError ''Using too many cores.'')
   \<and> dicodil example_env example_il_world (example_il_args \<lparr> il_n_jobs := 4 \<rparr>)
       = ([], Inl (ValueError ''Using too many cores.''))"
proof -
  have a: "n_jobs example_args = 2" "w_world example_args = None"
    "il_n_jobs example_il_args = 2" "il_w_world example_il_args = None"
    by (simp_all add: example_args_def example_il_args_def)
  have z: "zip (atom_shape (example_grid 2))
               (get_seg_shape (workers_segments (example_grid 2)) 0 True) = [(3, 9)]"
    "zip (atom_shape (example_grid 4))
         (get_seg_shape (workers_segments (example_grid 4)) 0 True) = [(3, 4)]"
    by (simp_all add: example_tile example_tile_4) (simp_all add: example_grid_def)
  have one: "snd (dicod example_env example_args) \<noteq> Inl (ValueError ''Using too many cores.'')"
    and two: "snd (dicodil example_env example_il_world example_il_args)
              \<noteq> Inl (ValueError ''Using too many cores.'')"
    using too_many_cores_error [of example_args example_env "example_grid 2" example_il_args
                                   "example_grid 2" example_il_world]
    by (simp_all add: a z example_make_grid example_il_grid)
  have three: "dicod example_env (example_args \<lparr> n_jobs := 4 \<rparr>)
               = ([], Inl (ValueError ''Using too many cores.''))"
    and four: "dicodil example_env example_il_world (example_il_args \<lparr> il_n_jobs := 4 \<rparr>)
               = ([], Inl (ValueError ''Using too many cores.''))"
    using too_many_cores_error [of "example_args \<lparr> n_jobs := 4 \<rparr>" example_env "example_grid 4"
                                   "example_il_args \<lparr> il_n_jobs := 4 \<rparr>" "example_grid 4"
                                   example_il_world]
    by (simp_all add: a z example_make_grid_4 example_il_grid)
  show ?thesis
    using one two three four z example_make_grid example_make_grid_4 by (simp add: a)
qed

subsection \<open>The reduction\<close>

lemma reduce_sum_nth:
  "j < count \<Longrightarrow> reduce_sum n count buf ! j = (\<Sum>i<n. buf i ! j)"
  by (simp add: reduce_sum_def interv_sum_list_conv_sum_set_nat atLeast0LessThan)

lemma reduce_sum_length: "length (reduce_sum n count buf) = count"
  by (simp add: reduce_sum_def)

text \<open>
  C7. When \<open>dicod\<close> returns the result of the workers, \<open>ztz\<close> and \<open>ztX\<close> are None exactly
  if \<open>return_ztz\<close> is false. If it is true, \<open>ztz\<close> has the shape
  \<open>(n_atoms, n_atoms, 2 * a_1 - 1, ...)\<close> and \<open>ztX\<close> the shape of \<open>D\<close>, that is
  \<open>(n_atoms, n_channels, a_1, ...)\<close>, and each of their elements is the sum over the
  \<open>n_jobs\<close> workers of the element that the worker contributes.
\<close>

theorem dicod_ztz_ztX:
  "snd (dicod env a) = Inr (Distributed zh ztz ztX crv) \<longrightarrow>
     (ztz = None \<longleftrightarrow> \<not> return_ztz a) \<and> (ztX = None \<longleftrightarrow> \<not> return_ztz a) \<and>
     (return_ztz a \<longrightarrow>
        (\<exists>zz zx. ztz = Some zz \<and> ztX = Some zx \<and> wf_array zz \<and> wf_array zx
           \<and> map int (shape zz)
               = int (hd (shape (D a))) # int (hd (shape (D a)))
                   # map (\<lambda>size_atom_ax. 2 * int size_atom_ax - 1) (drop 2 (shape (D a)))
           \<and> shape zx = shape (D a)
           \<and> (\<forall>j < length (data zz). data zz ! j = (\<Sum>i<nat (n_jobs a). worker_ztz env i ! j))
           \<and> (\<forall>j < length (data zx). data zx ! j = (\<Sum>i<nat (n_jobs a). worker_ztX env i ! j))))"
proof (intro impI)
  assume run: "snd (dicod env a) = Inr (Distributed zh ztz ztX crv)"
  from dicod_distributed [OF run] obtain g :: worker_grid and r :: received where
    rr: "snd (recv_result env (nat (n_jobs a)) (shape (D a)) (valid_shape g)
               (workers_segments g) (return_ztz a) (timing a)) = Inr r"
    and eq: "ztz = r_ztz r" "ztX = r_ztX r"
    by blast
  show "(ztz = None \<longleftrightarrow> \<not> return_ztz a) \<and> (ztX = None \<longleftrightarrow> \<not> return_ztz a) \<and>
     (return_ztz a \<longrightarrow>
        (\<exists>zz zx. ztz = Some zz \<and> ztX = Some zx \<and> wf_array zz \<and> wf_array zx
           \<and> map int (shape zz)
               = int (hd (shape (D a))) # int (hd (shape (D a)))
                   # map (\<lambda>size_atom_ax. 2 * int size_atom_ax - 1) (drop 2 (shape (D a)))
           \<and> shape zx = shape (D a)
           \<and> (\<forall>j < length (data zz). data zz ! j = (\<Sum>i<nat (n_jobs a). worker_ztz env i ! j))
           \<and> (\<forall>j < length (data zx). data zx ! j = (\<Sum>i<nat (n_jobs a). worker_ztX env i ! j))))"
  proof (cases "return_ztz a")
    case False
    with recv_result_fields(3) [OF rr] eq show ?thesis by simp
  next
    case True
    from recv_result_fields(2) [OF rr True] obtain zz :: ndarray and zx :: ndarray where
      z: "r_ztz r = Some zz" "r_ztX r = Some zx"
        "map int (shape zz) = int (hd (shape (D a))) # int (hd (shape (D a)))
                   # map (\<lambda>s. 2 * int s - 1) (drop 2 (shape (D a)))"
        "shape zx = shape (D a)"
        "data zz = reduce_sum (nat (n_jobs a)) (prod_list (shape zz)) (worker_ztz env)"
        "data zx = reduce_sum (nat (n_jobs a)) (prod_list (shape zx)) (worker_ztX env)"
      by (elim exE conjE) (rule that; assumption)
    have "wf_array zz" "wf_array zx"
      using z(5,6) by (simp_all add: wf_array_def reduce_sum_length)
    moreover have "\<forall>j < length (data zz). data zz ! j = (\<Sum>i<nat (n_jobs a). worker_ztz env i ! j)"
      using z(5) by (simp add: reduce_sum_length reduce_sum_nth)
    moreover have "\<forall>j < length (data zx). data zx ! j = (\<Sum>i<nat (n_jobs a). worker_ztX env i ! j)"
      using z(6) by (simp add: reduce_sum_length reduce_sum_nth)
    ultimately show ?thesis using True eq z(1-4) by simp
  qed
qed

theorem dicod_ztz_ztX_witness:
  "snd (dicod example_env example_args)
     = Inr (Distributed example_z_hat (Some example_ztz) (Some example_ztX) (Some example_curve))
   \<and> return_ztz example_args
   \<and> map int (shape example_ztz) = [1, 1, 2 * 3 - 1] \<and> shape example_ztX = [1, 1, 3]
   \<and> data example_ztz ! 0 = worker_ztz example_env 0 ! 0 + worker_ztz example_env 1 ! 0
   \<and> data example_ztX ! 1 = worker_ztX example_env 0 ! 1 + worker_ztX example_env 1 ! 1
   \<and> snd (dicod example_env (example_args \<lparr> return_ztz := False, timing := False \<rparr>))
       = Inr (Distributed example_z_hat None None None)
   \<and> \<not> return_ztz (example_args \<lparr> return_ztz := False, timing := False \<rparr>)"
proof -
  have run: "snd (dicod example_env example_args)
     = Inr (Distributed example_z_hat (Some example_ztz) (Some example_ztX) (Some example_curve))"
    by (simp add: example_run)
  have a: "return_ztz example_args" "n_jobs example_args = 2"
    "shape (D example_args) = [1, 1, 3]"
    by (simp_all add: example_args_def)
  have two: "{..<2::nat} = {0, 1}" by auto
  from dicod_ztz_ztX [of example_env example_args example_z_hat "Some example_ztz"
                         "Some example_ztX" "Some example_curve"] run a
  have "map int (shape example_ztz) = [1, 1, 2 * 3 - 1]" "shape example_ztX = [1, 1, 3]"
    "\<forall>j < length (data example_ztz).
        data example_ztz ! j = (\<Sum>i<2. worker_ztz example_env i ! j)"
    "\<forall>j < length (data example_ztX).
        data example_ztX ! j = (\<Sum>i<2. worker_ztX example_env i ! j)"
    by simp_all
  moreover have "0 < length (data example_ztz)" "1 < length (data example_ztX)"
    by (simp_all add: example_ztz_def example_ztX_def)
  ultimately have
    "map int (shape example_ztz) = [1, 1, 2 * 3 - 1]" "shape example_ztX = [1, 1, 3]"
    "data example_ztz ! 0 = worker_ztz example_env 0 ! 0 + worker_ztz example_env 1 ! 0"
    "data example_ztX ! 1 = worker_ztX example_env 0 ! 1 + worker_ztX example_env 1 ! 1"
    by (simp_all add: two)
  moreover from dicod_ztz_ztX [of example_env "example_args \<lparr> return_ztz := False, timing := False \<rparr>"
                         example_z_hat None None None] example_run_no_ztz
  have "\<not> return_ztz (example_args \<lparr> return_ztz := False, timing := False \<rparr>)"
    by simp
  ultimately show ?thesis using run a(1) example_run_no_ztz by simp
qed

subsection \<open>What the class coordinators broadcast\<close>

lemma send_task_N:
  assumes "send_task self pb = Inr r"
  shows "bc_N r ! 13 = real_of_int (self_patience self)"
    and "bc_N r ! 7 = real_of_int (max 1 (self_max_iter self div self_n_jobs self))"
  using assms
  by (auto simp: send_task_def Let_def split: list.splits option.splits if_splits)

lemma send_task_2d_N:
  assumes "send_task_2d cdd self pb DD = Inr r"
  shows "bc_N r ! 16 = real_of_int (self_patience self)"
    and "bc_N r ! 10 = self_i_max self / real_of_int (self_n_jobs self)"
  using assms
  by (auto simp: send_task_2d_def Let_def split: list.splits option.splits if_splits)

lemma example_init: "DICOD_init 4 1 None False 0 False 0 7 (1 / 10 ^ 10) 1000 40 = example_solver"
  by (simp add: example_solver_def)

lemma example_init_2d:
  "DICOD2D_init 4 2 1 None False 0 False 0 7 (1 / 10 ^ 10) 1000 40 = Inr example_solver_2d"
  by (simp add: DICOD2D_init_def example_solver_2d_def)

text \<open>
  C10. Whatever value is passed as \<open>patience\<close>, the constructors of \<open>DICOD\<close> and \<open>DICOD2D\<close>
  store 1000, and the last entry of the parameter array that \<open>send_task\<close> broadcasts is
  1000.
\<close>

theorem patience_ignored:
  "self_patience (DICOD_init nj us hf lg dbg pos alg v tlr mi tmo) = 1000
   \<and> (send_task (DICOD_init nj us hf lg dbg pos alg v tlr mi tmo) pb = Inr r \<longrightarrow>
        bc_N r ! 13 = 1000 \<and> length (bc_N r) = 14)
   \<and> (DICOD2D_init nj ww us hf lg dbg pos alg v tlr im tm = Inr self2 \<longrightarrow>
        self_patience self2 = 1000
        \<and> (send_task_2d cdd self2 pb2 DD = Inr r2 \<longrightarrow>
             bc_N r2 ! 16 = 1000 \<and> length (bc_N r2) = 17))"
proof (intro conjI impI)
  show p: "self_patience (DICOD_init nj us hf lg dbg pos alg v tlr mi tmo) = 1000"
    by (simp add: DICOD_init_def)
  assume s: "send_task (DICOD_init nj us hf lg dbg pos alg v tlr mi tmo) pb = Inr r"
  from send_task_N(1) [OF s] p show "bc_N r ! 13 = 1000" by simp
  from s show "length (bc_N r) = 14"
    by (auto simp: send_task_def Let_def split: list.splits option.splits if_splits)
next
  assume i: "DICOD2D_init nj ww us hf lg dbg pos alg v tlr im tm = Inr self2"
  then show p2: "self_patience self2 = 1000"
    by (auto simp: DICOD2D_init_def Let_def split: if_splits)
  assume s: "send_task_2d cdd self2 pb2 DD = Inr r2"
  from send_task_2d_N(1) [OF s] p2 show "bc_N r2 ! 16 = 1000" by simp
  from s show "length (bc_N r2) = 17"
    by (auto simp: send_task_2d_def Let_def split: list.splits if_splits)
qed

theorem patience_ignored_witness:
  "self_patience (DICOD_init 4 1 None False 0 False 0 7 (1 / 10 ^ 10) 1000 40) = 1000
   \<and> send_task (DICOD_init 4 1 None False 0 False 0 7 (1 / 10 ^ 10) 1000 40) example_problem
       = Inr example_sent
   \<and> bc_N example_sent ! 13 = 1000
   \<and> DICOD2D_init 4 2 1 None False 0 False 0 7 (1 / 10 ^ 10) 1000 40 = Inr example_solver_2d
   \<and> self_patience example_solver_2d = 1000
   \<and> send_task_2d (\<lambda>pb DD. [5]) example_solver_2d example_problem_2d None = Inr example_sent_2d
   \<and> bc_N example_sent_2d ! 16 = 1000"
  using patience_ignored [of 4 1 None False 0 False 0 7 "1 / 10 ^ 10" 1000 40 example_problem
                             example_sent 2 1000 40 example_solver_2d "\<lambda>pb DD. [5]"
                             example_problem_2d None example_sent_2d]
    example_init example_init_2d example_send_task example_send_task_2d
  by simp

subsection \<open>The iteration budget\<close>

lemma send_task_events_params:
  "Bcast_params ps' \<in> set (fst (send_task_events env Dm segs ps)) \<Longrightarrow> ps' = ps"
  by (auto simp: send_task_events_def send_segment_def Let_def split: if_splits)

lemma recv_result_no_params:
  "Bcast_params ps' \<notin> set (fst (recv_result env nw ds vs segs rztz tim))"
  by (auto simp: recv_result_def Let_def split: list.splits sum.splits if_splits)

lemma dicod_events:
  assumes "ev \<in> set (fst (dicod env a))"
  shows "\<exists>g. make_worker_grid env (X_i a) (D a) (n_jobs a) (w_world a) = Inr g
           \<and> (ev \<in> set (spawn_workers (n_jobs a) (hostfile a))
              \<or> ev \<in> set (fst (send_task_events env (D a) (workers_segments g)
                                 (base_params a @ [(''valid_shape'', PTuple (valid_shape g)),
                                                   (''workers_topology'', PTuple (topology g))])))
              \<or> ev = Barrier
              \<or> ev \<in> set (fst (recv_result env (nat (n_jobs a)) (shape (D a)) (valid_shape g)
                                  (workers_segments g) (return_ztz a) (timing a))))"
  using assms
  by (auto simp: dicod_def Let_def split: if_splits sum.splits prod.splits)

lemma dicod_params_max_iter:
  assumes "Bcast_params ps \<in> set (fst (dicod env a))"
  shows "map_of ps ''max_iter'' = Some (PInt (max_iter a))"
proof -
  from dicod_events [OF assms] obtain g :: worker_grid where
    "Bcast_params ps \<in> set (spawn_workers (n_jobs a) (hostfile a))
     \<or> Bcast_params ps \<in> set (fst (send_task_events env (D a) (workers_segments g)
                                 (base_params a @ [(''valid_shape'', PTuple (valid_shape g)),
                                                   (''workers_topology'', PTuple (topology g))])))
     \<or> Bcast_params ps \<in> set (fst (recv_result env (nat (n_jobs a)) (shape (D a)) (valid_shape g)
                                  (workers_segments g) (return_ztz a) (timing a)))"
    by auto
  then have "ps = base_params a @ [(''valid_shape'', PTuple (valid_shape g)),
                                   (''workers_topology'', PTuple (topology g))]"
    by (auto simp: spawn_workers_def recv_result_no_params dest: send_task_events_params)
  then show ?thesis by (simp add: base_params_def)
qed

text \<open>
  C5, as the code has it. In the function \<open>dicod\<close> the parameters broadcast to the
  workers carry the caller's \<open>max_iter\<close> unchanged. The class \<open>DICOD\<close> divides the budget
  among the workers: the parameter array carries \<open>max(1, max_iter // n_jobs)\<close>; the class
  \<open>DICOD2D\<close> sends \<open>i_max / n_jobs\<close>.
\<close>

theorem max_iter_transmitted:
  "(Bcast_params ps \<in> set (fst (dicod env a)) \<longrightarrow>
      map_of ps ''max_iter'' = Some (PInt (max_iter a)))
   \<and> (send_task self pb = Inr r \<longrightarrow>
        bc_N r ! 7 = real_of_int (max 1 (self_max_iter self div self_n_jobs self)))
   \<and> (send_task_2d cdd self2 pb2 DD = Inr r2 \<longrightarrow>
        bc_N r2 ! 10 = self_i_max self2 / real_of_int (self_n_jobs self2))"
  using dicod_params_max_iter send_task_N(2) send_task_2d_N(2) by blast

theorem max_iter_transmitted_witness:
  "Bcast_params example_params \<in> set (fst (dicod example_env example_args))
   \<and> map_of example_params ''max_iter'' = Some (PInt 100000)
   \<and> max_iter example_args = 100000
   \<and> send_task example_solver example_problem = Inr example_sent
   \<and> bc_N example_sent ! 7 = real_of_int (max 1 (1000 div 4))
   \<and> send_task_2d (\<lambda>pb DD. [5]) example_solver_2d example_problem_2d None = Inr example_sent_2d
   \<and> bc_N example_sent_2d ! 10 = 1000 / 4"
proof -
  have m: "Bcast_params example_params \<in> set (fst (dicod example_env example_args))"
    by (simp add: example_run example_trace_def)
  have s: "self_max_iter example_solver = 1000" "self_n_jobs example_solver = 4"
    "self_i_max example_solver_2d = 1000" "self_n_jobs example_solver_2d = 4"
    "max_iter example_args = 100000"
    by (simp_all add: example_solver_def DICOD_init_def example_solver_2d_def example_args_def)
  from max_iter_transmitted [of example_params example_env example_args example_solver
                                example_problem example_sent "\<lambda>pb DD. [5]" example_solver_2d
                                example_problem_2d None example_sent_2d]
  show ?thesis using m s example_send_task example_send_task_2d by simp
qed

text \<open>
  The claim as the specification states it fails for the class \<open>DICOD\<close>: with
  \<open>max_iter = 1000\<close> and four workers the parameter array carries 250.
\<close>

theorem max_iter_per_worker_counterexample:
  "send_task example_solver example_problem = Inr example_sent
   \<and> self_max_iter example_solver = 1000 \<and> self_n_jobs example_solver = 4
   \<and> bc_N example_sent ! 7 = 250"
  by (simp add: example_send_task) (simp add: example_solver_def DICOD_init_def example_sent_def)

subsection \<open>The coefficients alpha\<close>

lemma sum_list_upt: "sum_list (map f [0..<n]) = (\<Sum>i<n. f i)"
  by (simp add: interv_sum_list_conv_sum_set_nat atLeast0LessThan)

lemma flat_index_less: "i < n \<Longrightarrow> j < m \<Longrightarrow> i * m + j < n * (m::nat)"
proof -
  assume "i < n" "j < m"
  then have "i * m + j < Suc i * m" by simp
  also have "\<dots> \<le> n * m" using \<open>i < n\<close> by (intro mult_le_mono1) simp
  finally show ?thesis .
qed

lemma concat_rows_length: "length (concat (map (\<lambda>i. map (f i) [0..<R]) [0..<n])) = n * R"
  by (induction n) simp_all

lemma concat_rows_nth:
  "i < n \<Longrightarrow> r < R \<Longrightarrow> concat (map (\<lambda>i. map (f i) [0..<R]) [0..<n]) ! (i * R + r) = f i r"
proof (induction n)
  case 0
  then show ?case by simp
next
  case (Suc n)
  show ?case
  proof (cases "i < n")
    case True
    then have "i * R + r < n * R" using Suc.prems(2) by (rule flat_index_less)
    then show ?thesis using Suc.IH [OF True Suc.prems(2)]
      by (simp add: nth_append concat_rows_length)
  next
    case False
    then have "i = n" using Suc.prems(1) by simp
    then show ?thesis using Suc.prems(2)
      by (simp add: nth_append concat_rows_length)
  qed
qed

lemma np_mean_axis1_nth:
  "i < n0 \<Longrightarrow> r < R \<Longrightarrow>
     np_mean_axis1 n0 n1 R xs ! (i * R + r) = (\<Sum>c<n1. xs ! ((i * n1 + c) * R + r)) / real n1"
  by (simp add: np_mean_axis1_def concat_rows_nth sum_list_upt)

lemma np_sum_last_nth:
  "i < n \<Longrightarrow> np_sum_last n m xs ! i = (\<Sum>j<m. xs ! (i * m + j))"
  by (simp add: np_sum_last_def sum_list_upt)

lemma np_mul_nth: "i < length xs \<Longrightarrow> np_mul xs xs ! i = (xs ! i)\<^sup>2"
  by (simp add: np_mul_def power2_eq_square)

lemma mean_then_sum:
  assumes "k < K" "length xs = K * d * S"
  shows "np_sum_last K S (np_mean_axis1 K d S (np_mul xs xs)) ! k
         = (\<Sum>c<d. \<Sum>p<S. (xs ! ((k * d + c) * S + p))\<^sup>2) / real d"
proof -
  have idx: "(k * d + c) * S + p < length xs" if "c < d" "p < S" for c p
  proof -
    have "k * d + c < K * d" using assms(1) that(1) by (rule flat_index_less)
    then show ?thesis using that(2) assms(2) by (simp add: flat_index_less)
  qed
  have "np_sum_last K S (np_mean_axis1 K d S (np_mul xs xs)) ! k
        = (\<Sum>p<S. (\<Sum>c<d. np_mul xs xs ! ((k * d + c) * S + p)) / real d)"
    using assms(1) by (simp add: np_sum_last_nth np_mean_axis1_nth)
  also have "\<dots> = (\<Sum>p<S. (\<Sum>c<d. (xs ! ((k * d + c) * S + p))\<^sup>2) / real d)"
    by (intro sum.cong refl arg_cong2 [where f = "(/)"]) (simp add: idx np_mul_nth)
  also have "\<dots> = (\<Sum>p<S. \<Sum>c<d. (xs ! ((k * d + c) * S + p))\<^sup>2) / real d"
    by (simp add: sum_divide_distrib)
  also have "(\<Sum>p<S. \<Sum>c<d. (xs ! ((k * d + c) * S + p))\<^sup>2)
             = (\<Sum>c<d. \<Sum>p<S. (xs ! ((k * d + c) * S + p))\<^sup>2)"
    by (rule sum.swap)
  finally show ?thesis .
qed

lemma sum_rows_flat:
  fixes g :: "nat \<Rightarrow> real" and h w :: nat
  shows "(\<Sum>a<h. \<Sum>j<w. g (a * w + j)) = (\<Sum>r<h * w. g r)"
proof -
  have "(\<Sum>j<w. g (a * w + j)) = sum g {a * w ..< a * w + w}" for a
    using sum.shift_bounds_nat_ivl [of g 0 "a * w" w]
    by (simp add: atLeast0LessThan add.commute)
  then show ?thesis
    using sum.nat_group [of g w h] by simp
qed

lemma sum_last_twice:
  assumes "k < K"
  shows "np_sum_last K h (np_sum_last (K * h) w xs) ! k = np_sum_last K (h * w) xs ! k"
proof -
  have "np_sum_last K h (np_sum_last (K * h) w xs) ! k
        = (\<Sum>a<h. np_sum_last (K * h) w xs ! (k * h + a))"
    using assms by (simp add: np_sum_last_nth)
  also have "\<dots> = (\<Sum>a<h. \<Sum>j<w. xs ! ((k * h + a) * w + j))"
    using assms by (intro sum.cong refl) (simp add: np_sum_last_nth flat_index_less)
  also have "\<dots> = (\<Sum>a<h. \<Sum>j<w. xs ! (k * (h * w) + (a * w + j)))"
    by (simp add: algebra_simps)
  also have "\<dots> = (\<Sum>r<h * w. xs ! (k * (h * w) + r))"
    by (rule sum_rows_flat)
  finally show ?thesis using assms by (simp add: np_sum_last_nth)
qed

lemma add_is_zero_nth:
  "k < length xs \<Longrightarrow> add_is_zero xs ! k = (if xs ! k = 0 then 1 else xs ! k)"
  by (simp add: add_is_zero_def)

lemma np_sum_last_length: "length (np_sum_last n m xs) = n"
  by (simp add: np_sum_last_def)

lemma alpha_k_1d_nth:
  assumes "k < K" "length xs = K * d * S"
  shows "alpha_k_1d K d S xs ! k
         = (let m = (\<Sum>c<d. \<Sum>p<S. (xs ! ((k * d + c) * S + p))\<^sup>2) / real d
            in if m = 0 then 1 else m)"
  using assms by (simp add: alpha_k_1d_def add_is_zero_nth np_sum_last_length mean_then_sum Let_def)

lemma alpha_k_2d_nth:
  assumes "k < K" "length xs = K * d * (h * w)"
  shows "alpha_k_2d K d h w xs ! k
         = (let m = (\<Sum>c<d. \<Sum>p<h * w. (xs ! ((k * d + c) * (h * w) + p))\<^sup>2) / real d
            in if m = 0 then 1 else m)"
  using assms
  by (simp add: alpha_k_2d_def add_is_zero_nth np_sum_last_length sum_last_twice mean_then_sum Let_def)


text \<open>
  C6, as the code has it. For a dictionary with at least one channel, the coefficient
  \<open>alpha_k\<close> broadcast for atom \<open>k\<close> is the mean over the channels of the squared norm of
  the atom, except that a mean of 0 is replaced by 1 (\<open>alpha_k += (alpha_k == 0)\<close>). The
  sums and the quotient are exact here.
\<close>

theorem alpha_k_broadcast:
  "(send_task self pb = Inr r \<and> wf_array (pb_D pb) \<and> shape (pb_D pb) = [K, d, S]
      \<and> 0 < d \<and> k < K \<longrightarrow>
      bc_alpha_k r ! k
      = (let m = (\<Sum>c<d. \<Sum>p<S. (data (pb_D pb) ! ((k * d + c) * S + p))\<^sup>2) / real d
         in if m = 0 then 1 else m))
   \<and> (send_task_2d cdd self2 pb2 DD = Inr r2 \<and> wf_array (pb_D pb2)
        \<and> shape (pb_D pb2) = [K, d, h, w] \<and> 0 < d \<and> k < K \<longrightarrow>
      bc_alpha_k r2 ! k
      = (let m = (\<Sum>c<d. \<Sum>p<h * w. (data (pb_D pb2) ! ((k * d + c) * (h * w) + p))\<^sup>2) / real d
         in if m = 0 then 1 else m))"
proof (intro conjI impI)
  assume h: "send_task self pb = Inr r \<and> wf_array (pb_D pb) \<and> shape (pb_D pb) = [K, d, S]
      \<and> 0 < d \<and> k < K"
  then have "bc_alpha_k r = alpha_k_1d K d S (data (pb_D pb))"
    by (auto simp: send_task_def Let_def split: list.splits option.splits if_splits)
  moreover have "length (data (pb_D pb)) = K * d * S"
    using h by (simp add: wf_array_def)
  ultimately show "bc_alpha_k r ! k
      = (let m = (\<Sum>c<d. \<Sum>p<S. (data (pb_D pb) ! ((k * d + c) * S + p))\<^sup>2) / real d
         in if m = 0 then 1 else m)"
    using h alpha_k_1d_nth [of k K "data (pb_D pb)" d S] by simp
next
  assume h: "send_task_2d cdd self2 pb2 DD = Inr r2 \<and> wf_array (pb_D pb2)
        \<and> shape (pb_D pb2) = [K, d, h, w] \<and> 0 < d \<and> k < K"
  then have "bc_alpha_k r2 = alpha_k_2d K d h w (data (pb_D pb2))"
    by (auto simp: send_task_2d_def Let_def split: list.splits if_splits)
  moreover have "length (data (pb_D pb2)) = K * d * (h * w)"
    using h by (simp add: wf_array_def)
  ultimately show "bc_alpha_k r2 ! k
      = (let m = (\<Sum>c<d. \<Sum>p<h * w. (data (pb_D pb2) ! ((k * d + c) * (h * w) + p))\<^sup>2) / real d
         in if m = 0 then 1 else m)"
    using h alpha_k_2d_nth [of k K "data (pb_D pb2)" d h w] by simp
qed

theorem alpha_k_broadcast_witness:
  "send_task example_solver example_problem = Inr example_sent
   \<and> wf_array (pb_D example_problem) \<and> shape (pb_D example_problem) = [2, 1, 2]
   \<and> bc_alpha_k example_sent ! 1
       = ((data (pb_D example_problem) ! 2)\<^sup>2 + (data (pb_D example_problem) ! 3)\<^sup>2) / 1
   \<and> bc_alpha_k example_sent ! 1 = 5
   \<and> send_task_2d (\<lambda>pb DD. [5]) example_solver_2d example_problem_2d None = Inr example_sent_2d
   \<and> wf_array (pb_D example_problem_2d) \<and> shape (pb_D example_problem_2d) = [2, 1, 1, 2]
   \<and> bc_alpha_k example_sent_2d ! 1
       = ((data (pb_D example_problem_2d) ! 2)\<^sup>2 + (data (pb_D example_problem_2d) ! 3)\<^sup>2) / 1
   \<and> bc_alpha_k example_sent_2d ! 1 = 5"
proof -
  have p: "wf_array (pb_D example_problem)" "shape (pb_D example_problem) = [2, 1, 2]"
    "wf_array (pb_D example_problem_2d)" "shape (pb_D example_problem_2d) = [2, 1, 1, 2]"
    by (simp_all add: example_problem_def example_problem_2d_def wf_array_def)
  have d: "data (pb_D example_problem) = [0, 0, 1, 2]"
    "data (pb_D example_problem_2d) = [0, 0, 1, 2]"
    by (simp_all add: example_problem_def example_problem_2d_def)
  have s: "{..<2::nat} = {0, 1}" "{..<1::nat} = {0}" by auto
  from alpha_k_broadcast [of example_solver example_problem example_sent 2 1 2 1
                             "\<lambda>pb DD. [5]" example_solver_2d example_problem_2d None
                             example_sent_2d 1 2]
  have "bc_alpha_k example_sent ! 1
        = (let m = (\<Sum>c<1. \<Sum>p<2. (data (pb_D example_problem) ! ((1 * 1 + c) * 2 + p))\<^sup>2) / real 1
           in if m = 0 then 1 else m)"
    "bc_alpha_k example_sent_2d ! 1
        = (let m = (\<Sum>c<1. \<Sum>p<1 * 2.
                      (data (pb_D example_problem_2d) ! ((1 * 1 + c) * (1 * 2) + p))\<^sup>2) / real 1
           in if m = 0 then 1 else m)"
    using p example_send_task example_send_task_2d by simp_all
  then have "bc_alpha_k example_sent ! 1 = 5" "bc_alpha_k example_sent_2d ! 1 = 5"
    by (simp_all add: s d Let_def)
  then show ?thesis
    using p example_send_task example_send_task_2d by (simp add: d)
qed

text \<open>
  The claim as the specification states it fails for an atom that is zero: the mean of
  its squared norm is 0 and the coefficient broadcast is 1.
\<close>

theorem alpha_k_zero_atom_counterexample:
  "send_task example_solver example_problem = Inr example_sent
   \<and> shape (pb_D example_problem) = [2, 1, 2]
   \<and> ((data (pb_D example_problem) ! 0)\<^sup>2 + (data (pb_D example_problem) ! 1)\<^sup>2) / 1 = 0
   \<and> bc_alpha_k example_sent ! 0 = 1"
  by (simp add: example_send_task) (simp add: example_problem_def example_sent_def)

subsection \<open>The reconstruction of the cost curve\<close>

text \<open>
  The loop of \<open>reconstruct_pobj\<close> does in one pass what the three stages do one after the
  other: it walks the trajectory, appends to \<open>p_obj\<close> the picked checkpoints with their
  cost, and ends in the last state of the trajectory.
\<close>

lemma replay_trajectory:
  "replay cst ns st es = Inr st' \<Longrightarrow>
     \<exists>tr. trajectory ns (z_hat st) (up_ii st) (last_ii st) es = Some tr
        \<and> length tr = length es
        \<and> p_obj st' = p_obj st @ map (with_cost cst) (pick_checkpoints (next_cost st) tr)
        \<and> (up_ii st', t_update st', z_hat st') = final_of st tr"
proof (induction es arbitrary: st)
  case Nil
  then show ?case by (simp add: final_of_def)
next
  case (Cons e es)
  obtain t ii rank k0 pt0 dz where e: "e = (t, ii, rank, k0, pt0, dz)" by (cases e)
  from Cons.prems obtain st1 where
    s1: "replay_step cst ns st e = Inr st1" and r1: "replay cst ns st1 es = Inr st'"
    by (auto split: sum.splits)
  from s1 obtain z' r where
    z': "nd_add ns (z_hat st) (k0 # pt0) dz = Some z'"
    and r: "py_index (length (last_ii st)) rank = Some r"
    by (auto simp: replay_step_def e split: option.splits)
  define up where "up = up_ii st + (ii - last_ii st ! r)"
  have st1: "z_hat st1 = z'" "up_ii st1 = up" "last_ii st1 = (last_ii st)[r := ii]"
    "t_update st1 = Some t"
    "next_cost st1 = (if up \<ge> next_cost st then next_cost st * 2 else next_cost st)"
    "p_obj st1 = (if up \<ge> next_cost st then p_obj st @ [(up, t, cst z')] else p_obj st)"
    using s1 z' r by (auto simp: replay_step_def e up_def Let_def split: if_splits)
  from Cons.IH [OF r1] obtain tr where
    tr: "trajectory ns z' up ((last_ii st)[r := ii]) es = Some tr" "length tr = length es"
      "p_obj st' = p_obj st1 @ map (with_cost cst) (pick_checkpoints (next_cost st1) tr)"
      "(up_ii st', t_update st', z_hat st') = final_of st1 tr"
    by (auto simp: st1(1-3))
  have traj: "trajectory ns (z_hat st) (up_ii st) (last_ii st) (e # es) = Some ((up, t, z') # tr)"
    using z' r tr(1) by (simp add: e up_def)
  have pobj: "p_obj st' = p_obj st
                @ map (with_cost cst) (pick_checkpoints (next_cost st) ((up, t, z') # tr))"
    using tr(3) st1(5,6) by (simp add: with_cost_def mult.commute)
  have fin: "(up_ii st', t_update st', z_hat st') = final_of st ((up, t, z') # tr)"
    using tr(4) st1(1,2,4) by (simp add: final_of_def)
  show ?case using traj pobj fin tr(2) by simp
qed

lemma pick_checkpoints_threshold:
  "i < length (pick_checkpoints thr tr) \<Longrightarrow> thr * 2 ^ i \<le> fst (pick_checkpoints thr tr ! i)"
proof (induction tr arbitrary: thr i)
  case Nil
  then show ?case by simp
next
  case (Cons s tr)
  obtain c t z where s: "s = (c, t, z)" by (cases s)
  show ?case
  proof (cases "c \<ge> thr")
    case True
    show ?thesis
    proof (cases i)
      case 0
      then show ?thesis using True by (simp add: s)
    next
      case (Suc j)
      then have "j < length (pick_checkpoints (2 * thr) tr)" using Cons.prems True by (simp add: s)
      from Cons.IH [OF this] show ?thesis using True Suc by (simp add: s mult.assoc)
    qed
  next
    case False
    then show ?thesis using Cons by (simp add: s)
  qed
qed

lemma trajectory_times:
  "trajectory ns z up lst es = Some tr \<Longrightarrow> map (\<lambda>s. fst (snd s)) tr = map fst es"
  by (induction ns z up lst es arbitrary: tr rule: trajectory.induct)
     (auto split: option.splits)

lemma sorted_fst: "sorted (xs :: ('a::linorder \<times> 'b::linorder) list) \<Longrightarrow> sorted (map fst xs)"
  by (induction xs) (auto simp: less_eq_prod_def)

lemma pick_checkpoints_subset: "set (pick_checkpoints thr tr) \<subseteq> set tr"
  by (induction thr tr rule: pick_checkpoints.induct) auto


lemma reconstruct_pobj_unfold:
  assumes "reconstruct_pobj env X Dm rg lg nj vs zi = Inr curve"
  obtains z :: ndarray and st t where
    "case zi of Some z' \<Rightarrow> z = z'
     | None \<Rightarrow> z = \<lparr>shape = hd (shape Dm) # map nat vs,
                     data = replicate (prod_list (hd (shape Dm) # map nat vs)) 0\<rparr>
               \<and> (\<forall>v \<in> set vs. 0 \<le> v)"
    and "replay (\<lambda>zd. cost env X \<lparr>shape = shape z, data = zd\<rparr> Dm rg) (shape z)
               \<lparr> z_hat = data z, up_ii = 0, last_ii = replicate (nat nj) 0,
                 next_cost = 1, p_obj = [], t_update = None \<rparr> (sort lg) = Inr st"
    and "t_update st = Some t"
    and "curve = p_obj st @ [(up_ii st, t, cost env X \<lparr>shape = shape z, data = z_hat st\<rparr> Dm rg)]"
proof (cases zi)
  case None
  with assms that [of "\<lparr>shape = hd (shape Dm) # map nat vs,
                        data = replicate (prod_list (hd (shape Dm) # map nat vs)) 0\<rparr>"]
  show ?thesis
    by (auto simp: reconstruct_pobj_def Let_def np_shape_def list_ex_iff not_less
             split: list.splits option.splits sum.splits if_splits)
next
  case (Some z)
  with assms that [of z] show ?thesis
    by (auto simp: reconstruct_pobj_def Let_def
             split: list.splits option.splits sum.splits if_splits)
qed

lemma reconstruct_pobj_stages:
  assumes "reconstruct_pobj env X Dm rg lg nj vs zi = Inr curve"
  shows "\<exists>z tr. (case zi of Some z' \<Rightarrow> z = z'
                   | None \<Rightarrow> z = \<lparr>shape = hd (shape Dm) # map nat vs,
                                   data = replicate (prod_list (hd (shape Dm) # map nat vs)) 0\<rparr>
                             \<and> (\<forall>v \<in> set vs. 0 \<le> v))
          \<and> trajectory (shape z) (data z) 0 (replicate (nat nj) 0) (sort lg) = Some tr
          \<and> length tr = length lg \<and> tr \<noteq> []
          \<and> sorted (map (\<lambda>s. fst (snd s)) tr)
          \<and> curve = spec_cost_curve (\<lambda>zd. cost env X \<lparr>shape = shape z, data = zd\<rparr> Dm rg) tr"
proof -
  from assms obtain z :: ndarray and st t where
    z: "case zi of Some z' \<Rightarrow> z = z'
        | None \<Rightarrow> z = \<lparr>shape = hd (shape Dm) # map nat vs,
                        data = replicate (prod_list (hd (shape Dm) # map nat vs)) 0\<rparr>
                  \<and> (\<forall>v \<in> set vs. 0 \<le> v)"
    and rp: "replay (\<lambda>zd. cost env X \<lparr>shape = shape z, data = zd\<rparr> Dm rg) (shape z)
               \<lparr> z_hat = data z, up_ii = 0, last_ii = replicate (nat nj) 0,
                 next_cost = 1, p_obj = [], t_update = None \<rparr> (sort lg) = Inr st"
    and tu: "t_update st = Some t"
    and cv: "curve = p_obj st @ [(up_ii st, t,
                            cost env X \<lparr>shape = shape z, data = z_hat st\<rparr> Dm rg)]"
    by (rule reconstruct_pobj_unfold)
  let ?cst = "\<lambda>zd. cost env X \<lparr>shape = shape z, data = zd\<rparr> Dm rg"
  let ?st0 = "\<lparr> z_hat = data z, up_ii = 0, last_ii = replicate (nat nj) 0,
                 next_cost = 1, p_obj = [], t_update = None \<rparr>"
  from replay_trajectory [OF rp] obtain tr where
    tr: "trajectory (shape z) (data z) 0 (replicate (nat nj) 0) (sort lg) = Some tr"
      "length tr = length (sort lg)"
      "p_obj st = map (with_cost ?cst) (pick_checkpoints 1 tr)"
      "(up_ii st, t_update st, z_hat st) = final_of ?st0 tr"
    by auto
  from tu tr(4) have ne: "tr \<noteq> []" by (auto simp: final_of_def)
  obtain c t' zl where l: "last tr = (c, t', zl)" by (cases "last tr")
  have fin: "up_ii st = c" "t_update st = Some t'" "z_hat st = zl"
    using tr(4) ne l by (simp_all add: final_of_def)
  have "curve = spec_cost_curve ?cst tr"
    using cv tu fin tr(3) l by (simp add: spec_cost_curve_def with_cost_def)
  moreover have "sorted (map (\<lambda>s. fst (snd s)) tr)"
    using trajectory_times [OF tr(1)] sorted_fst [of "sort lg"] by simp
  ultimately show ?thesis using z tr(1,2) ne by auto
qed

lemma reconstruct_pobj_empty_log:
  "reconstruct_pobj env X Dm rg [] nj vs zi \<noteq> Inr curve"
  by (auto simp: reconstruct_pobj_def Let_def ranks_ok_def split: list.splits option.splits sum.splits)

lemma dicod_curve:
  assumes "snd (dicod env a) = Inr (Distributed zh ztz ztX crv)"
  shows "\<not> timing a \<Longrightarrow> crv = None"
    and "timing a \<Longrightarrow>
           \<exists>curve g. crv = Some curve
             \<and> make_worker_grid env (X_i a) (D a) (n_jobs a) (w_world a) = Inr g
             \<and> reconstruct_pobj env (X_i a) (D a) (reg a)
                  (concat (map (worker_log env) [0..<effective_n_seg (workers_segments g)]))
                  (n_jobs a) (valid_shape g) (z0 a) = Inr curve"
proof -
  from dicod_distributed [OF assms] obtain g :: worker_grid and r :: received where
    g: "make_worker_grid env (X_i a) (D a) (n_jobs a) (w_world a) = Inr g"
    and rr: "snd (recv_result env (nat (n_jobs a)) (shape (D a)) (valid_shape g)
               (workers_segments g) (return_ztz a) (timing a)) = Inr r"
    and c: "if timing a
            then \<exists>c. crv = Some c \<and> reconstruct_pobj env (X_i a) (D a) (reg a) (r_log r)
                                        (n_jobs a) (valid_shape g) (z0 a) = Inr c
            else crv = None"
    by blast
  show "\<not> timing a \<Longrightarrow> crv = None" using c by simp
  show "timing a \<Longrightarrow>
           \<exists>curve g. crv = Some curve
             \<and> make_worker_grid env (X_i a) (D a) (n_jobs a) (w_world a) = Inr g
             \<and> reconstruct_pobj env (X_i a) (D a) (reg a)
                  (concat (map (worker_log env) [0..<effective_n_seg (workers_segments g)]))
                  (n_jobs a) (valid_shape g) (z0 a) = Inr curve"
    using c g recv_result_fields(4) [OF rr] by auto
qed

text \<open>
  C8. With \<open>timing\<close> and workers that have logged no update (none of them accepted one),
  the log is empty, the loop of lines 166 to 174 binds nothing, and line 177 reads the
  unbound \<open>t_update\<close>: \<open>dicod\<close> raises after the whole exchange with the workers, and gives
  no cost curve. For a log with at least one record the curve is the one described
  (\<open>reconstruct_pobj_stages\<close>, \<open>pick_checkpoints_threshold\<close>), and without \<open>timing\<close> it is
  None (\<open>dicod_curve\<close>).
\<close>

theorem dicod_timing_empty_log:
  "timing example_args \<and> worker_log silent_env 0 = [] \<and> worker_log silent_env 1 = []
   \<and> dicod silent_env example_args = (example_trace, Inl UnboundLocalError)"
proof -
  have "dicod silent_env example_args = (example_trace, Inl UnboundLocalError)"
    by code_simp
  then show ?thesis by (simp add: example_args_def silent_env_def)
qed

subsection \<open>The choice of the worker grid\<close>







subsection \<open>The progress check of dicodil\<close>








end
